theory Spec2Isabelle
  imports Main "HOL-Library.Sublist"
begin

section \<open>Platform values used by the split-PDF hook\<close>

text \<open>
  The hook of \<^verbatim>\<open>partition.ts\<close> (class \<^verbatim>\<open>SplitPdfHook\<close>) works on the Fetch API's
  \<^verbatim>\<open>Request\<close>, \<^verbatim>\<open>Response\<close>, \<^verbatim>\<open>Headers\<close>, \<^verbatim>\<open>FormData\<close>, \<^verbatim>\<open>File\<close> and \<^verbatim>\<open>Blob\<close>
  objects. They are modelled by the values the hook reads from them, and their
  constructors by what the Fetch standard makes of the arguments. Calls that can throw (\<^verbatim>\<open>formData()\<close>, \<^verbatim>\<open>json()\<close>,
  \<^verbatim>\<open>PDFDocument.load\<close>, the transport's \<^verbatim>\<open>request\<close>) return a sum, \<open>Inl\<close> the
  exception. A JSON number is kept as an integer: the hook moves parsed values
  around and never computes with them.
\<close>

datatype error =
    TypeError
  | SyntaxError
  | RangeError
  | Thrown string

datatype json =
    JNull
  | JBool bool
  | JNum int
  | JStr string
  | JArr "json list"
  | JObj "(string \<times> json) list"

type_synonym headers = "(string \<times> string) list"

record blob =
  blob_bytes :: string
  blob_type :: string

text \<open>A form entry is a string or a file (a blob with a name).\<close>

datatype form_value =
    FString string
  | FFile blob string

type_synonym form_data = "(string \<times> form_value) list"

text \<open>
  \<open>req_body\<close> is what \<^verbatim>\<open>request.clone().formData()\<close> yields: \<open>None\<close> when the body
  is not a form and the call throws. A request with a form in its body is not a
  \<^verbatim>\<open>GET\<close> or \<^verbatim>\<open>HEAD\<close> request: the platform builds no such \<^verbatim>\<open>Request\<close>.
\<close>

record request =
  req_method :: string
  req_url :: string
  req_headers :: headers
  req_body :: "form_data option"

record response =
  res_status :: int
  res_statusText :: string
  res_headers :: headers
  res_body :: string

type_synonym http_client = "request \<Rightarrow> error + response"

subsection \<open>Headers and FormData operations\<close>

text \<open>
  A \<^verbatim>\<open>Headers\<close> object is the list of its entries, names in lower case as the class
  keeps them; an appended entry goes to the end, and the order carries no meaning.
  \<^verbatim>\<open>delete\<close> removes every entry of the name; \<open>has_header\<close> is \<^verbatim>\<open>has\<close>.
\<close>

definition headers_delete :: "headers \<Rightarrow> string \<Rightarrow> headers" where
  "headers_delete hs name = filter (\<lambda>h. fst h \<noteq> name) hs"

definition has_header :: "headers \<Rightarrow> string \<Rightarrow> bool" where
  "has_header hs name = (name \<in> set (map fst hs))"

definition fd_get :: "form_data \<Rightarrow> string \<Rightarrow> form_value option" where
  "fd_get fd key = map_of fd key"

definition fd_delete :: "form_data \<Rightarrow> string \<Rightarrow> form_data" where
  "fd_delete fd key = filter (\<lambda>e. fst e \<noteq> key) fd"

definition fd_append :: "form_data \<Rightarrow> string \<Rightarrow> form_value \<Rightarrow> form_data" where
  "fd_append fd key v = fd @ [(key, v)]"

subsection \<open>Strings\<close>

definition endsWith :: "string \<Rightarrow> string \<Rightarrow> bool" where
  "endsWith s suf = suffix suf s"

text \<open>\<^verbatim>\<open>s.replace(pat, rep)\<close> with a string pattern: the first occurrence only.\<close>

fun replace_first :: "string \<Rightarrow> string \<Rightarrow> string \<Rightarrow> string" where
  "replace_first pat rep [] = (if pat = [] then rep else [])"
| "replace_first pat rep (c # cs) =
     (if prefix pat (c # cs) then rep @ drop (length pat) (c # cs)
      else c # replace_first pat rep cs)"

definition digit_char :: "nat \<Rightarrow> char" where
  "digit_char d = ''0123456789'' ! d"

text \<open>The decimal numeral of a number, as a template literal prints it.\<close>

fun string_of_nat :: "nat \<Rightarrow> string" where
  "string_of_nat n =
     (if n < 10 then [digit_char n]
      else string_of_nat (n div 10) @ [digit_char (n mod 10)])"

declare string_of_nat.simps [simp del]

subsection \<open>Collaborators\<close>

text \<open>
  What the hook takes from outside \<^verbatim>\<open>partition.ts\<close>: \<^verbatim>\<open>stringToBoolean\<close> of
  \<^verbatim>\<open>./utils\<close>, the paging capability (pdf-lib: \<^verbatim>\<open>PDFDocument.load\<close>,
  \<^verbatim>\<open>getPages().length\<close>, and the \<^verbatim>\<open>create\<close>/\<^verbatim>\<open>copyPages\<close>/\<^verbatim>\<open>addPage\<close>/\<^verbatim>\<open>save\<close>
  sequence that yields one page's bytes), \<^verbatim>\<open>Response.json\<close> and \<^verbatim>\<open>JSON.stringify\<close>,
  and the content type that the platform gives to a \<^verbatim>\<open>FormData\<close> body
  (\<^verbatim>\<open>multipart/form-data; boundary=...\<close>, with a boundary of its choice, taken here
  as a function of the form).
\<close>

record 'pdf platform =
  stringToBoolean :: "string \<Rightarrow> bool"
  pdf_load :: "string \<Rightarrow> error + 'pdf"
  pdf_page_count :: "'pdf \<Rightarrow> nat"
  pdf_save_page :: "'pdf \<Rightarrow> nat \<Rightarrow> error + string"
  json_parse :: "string \<Rightarrow> error + json"
  json_stringify :: "json \<Rightarrow> string"
  multipart_type :: "form_data \<Rightarrow> string"

section \<open>The hook's state\<close>

definition PARTITION_FORM_FILES_KEY :: string where
  "PARTITION_FORM_FILES_KEY = ''files''"

definition PARTITION_FORM_SPLIT_PDF_PAGE_KEY :: string where
  "PARTITION_FORM_SPLIT_PDF_PAGE_KEY = ''split_pdf_page''"

definition MAX_NUMBER_OF_PARALLEL_REQUESTS :: int where
  "MAX_NUMBER_OF_PARALLEL_REQUESTS = 15"

text \<open>
  Console output, one constructor per message of the source:
  \<^item> \<open>WarnNotPdf\<close>: "Given file is not a PDF. Continuing without splitting."
  \<^item> \<open>WarnNoClient\<close>: "HTTP client not accessible! Continuing without splitting."
  \<^item> \<open>WarnParallelLimit n\<close>: "'parallelLimit' was set to 'n'. ... Using the maximum value instead."
  \<^item> \<open>ErrorPageFailed k\<close>: "Failed to send request for page k."
\<close>

datatype log_entry =
    WarnNotPdf
  | WarnNoClient
  | WarnParallelLimit int
  | ErrorPageFailed nat

text \<open>
  The promise returned by \<^verbatim>\<open>async.parallelLimit(tasks, limit)\<close>: task \<open>i\<close> sends
  \<open>jh_tasks ! i\<close>; \<open>jh_limit\<close> is the bound that was passed; \<open>jh_rejected\<close> is the
  error the promise is rejected with, if the library refused the call; \<open>jh_settled\<close>
  tells whether the promise has resolved, so that awaiting it again runs nothing.
\<close>

record join_handle =
  jh_tasks :: "request list"
  jh_limit :: int
  jh_rejected :: "error option"
  jh_settled :: bool

text \<open>
  \<^verbatim>\<open>async.parallelLimit\<close> of the async library (version 3, the one that returns a
  promise): a bound below 1 is refused with a RangeError ("concurrency limit cannot be
  less than 1"), which rejects the promise before any task starts; otherwise every
  task runs, at most \<open>limit\<close> at a time, and the promise resolves once all have
  finished. The tasks of the hook catch whatever they throw, so nothing else rejects.
\<close>

definition async_parallelLimit :: "request list \<Rightarrow> int \<Rightarrow> join_handle" where
  "async_parallelLimit tasks limit =
     \<lparr> jh_tasks = tasks, jh_limit = limit,
       jh_rejected = (if limit \<le> 0 then Some RangeError else None),
       jh_settled = False \<rparr>"

text \<open>
  \<open>partitionResponses\<close> and \<open>partitionRequests\<close> are the two private records of the
  class, keyed by operation id; an array slot is \<open>None\<close> while it is empty.
  \<open>parallelLimit\<close> is the static field, \<open>console\<close> the messages written so far.
\<close>

record hook_state =
  client :: "http_client option"
  partitionResponses :: "string \<rightharpoonup> response option list"
  partitionRequests :: "string \<rightharpoonup> join_handle"
  parallelLimit :: int
  console :: "log_entry list"

definition init_state :: hook_state where
  "init_state = \<lparr> client = None, partitionResponses = Map.empty,
                  partitionRequests = Map.empty, parallelLimit = 5, console = [] \<rparr>"

definition log :: "log_entry \<Rightarrow> hook_state \<Rightarrow> hook_state" where
  "log e st = st\<lparr> console := console st @ [e] \<rparr>"

definition sdkInit :: "http_client option \<Rightarrow> hook_state \<Rightarrow> hook_state" where
  "sdkInit c st = st\<lparr> client := c \<rparr>"

section \<open>Private helpers of the class\<close>

definition pdfPageToBlob :: "'pdf platform \<Rightarrow> 'pdf \<Rightarrow> nat \<Rightarrow> error + blob" where
  "pdfPageToBlob pl pdf pageIndex =
     (case pdf_save_page pl pdf pageIndex of
        Inl e \<Rightarrow> Inl e
      | Inr subPdfBytes \<Rightarrow> Inr \<lparr> blob_bytes = subPdfBytes, blob_type = ''application/pdf'' \<rparr>)"

text \<open>The loop of \<^verbatim>\<open>#getPdfPages\<close> over the page indices, stopping at the first throw.\<close>

fun pages_loop :: "'pdf platform \<Rightarrow> 'pdf \<Rightarrow> nat list \<Rightarrow> error + blob list" where
  "pages_loop pl pdf [] = Inr []"
| "pages_loop pl pdf (i # is) =
     (case pdfPageToBlob pl pdf i of
        Inl e \<Rightarrow> Inl e
      | Inr pageFile \<Rightarrow>
          (case pages_loop pl pdf is of
             Inl e \<Rightarrow> Inl e
           | Inr pagesFiles \<Rightarrow> Inr (pageFile # pagesFiles)))"

definition getPdfPages :: "'pdf platform \<Rightarrow> blob \<Rightarrow> error + blob list" where
  "getPdfPages pl file =
     (case pdf_load pl (blob_bytes file) of
        Inl e \<Rightarrow> Inl e
      | Inr pdf \<Rightarrow> pages_loop pl pdf [0 ..< pdf_page_count pl pdf])"

definition prepareResponseHeaders :: "response \<Rightarrow> headers" where
  "prepareResponseHeaders response = headers_delete (res_headers response) ''content-length''"

text \<open>
  \<^verbatim>\<open>allElements.flat()\<close>: an element that is an array is replaced by its elements,
  any other element stays.
\<close>

fun flat1 :: "json \<Rightarrow> json list" where
  "flat1 (JArr xs) = xs"
| "flat1 v = [v]"

definition flat :: "json list \<Rightarrow> json list" where
  "flat allElements = concat (map flat1 allElements)"

fun parse_bodies :: "'pdf platform \<Rightarrow> response list \<Rightarrow> error + json list" where
  "parse_bodies pl [] = Inr []"
| "parse_bodies pl (res # rest) =
     (case json_parse pl (res_body res) of
        Inl e \<Rightarrow> Inl e
      | Inr resElements \<Rightarrow>
          (case parse_bodies pl rest of
             Inl e \<Rightarrow> Inl e
           | Inr allElements \<Rightarrow> Inr (resElements # allElements)))"

definition prepareResponseBody :: "'pdf platform \<Rightarrow> response list \<Rightarrow> error + string" where
  "prepareResponseBody pl responses =
     (case parse_bodies pl responses of
        Inl e \<Rightarrow> Inl e
      | Inr allElements \<Rightarrow> Inr (json_stringify pl (JArr (flat allElements))))"

definition prepareRequestHeaders :: "request \<Rightarrow> headers" where
  "prepareRequestHeaders request = headers_delete (req_headers request) ''content-type''"

definition prepareRequestBody :: "request \<Rightarrow> error + form_data" where
  "prepareRequestBody request =
     (case req_body request of
        None \<Rightarrow> Inl TypeError
      | Some formData \<Rightarrow>
          Inr (fd_append
                 (fd_delete (fd_delete formData PARTITION_FORM_SPLIT_PDF_PAGE_KEY)
                    PARTITION_FORM_FILES_KEY)
                 PARTITION_FORM_SPLIT_PDF_PAGE_KEY (FString ''false'')))"

definition clearOperation :: "string \<Rightarrow> hook_state \<Rightarrow> hook_state" where
  "clearOperation operationID st =
     st\<lparr> partitionResponses := (partitionResponses st)(operationID := None),
         partitionRequests := (partitionRequests st)(operationID := None) \<rparr>"

section \<open>Background page requests\<close>

text \<open>\<^verbatim>\<open>arr[i] = v\<close> on a JavaScript array: a write past the end extends the array.\<close>

definition array_set :: "'a option list \<Rightarrow> nat \<Rightarrow> 'a \<Rightarrow> 'a option list" where
  "array_set arr i v =
     (if i < length arr then arr[i := Some v]
      else arr @ replicate (i - length arr) None @ [Some v])"

text \<open>
  The body of the task created for \<open>req\<close> at index \<open>i\<close> of \<^verbatim>\<open>requests.slice(0, -1)\<close>.
  Whatever is thrown inside \<^verbatim>\<open>try\<close> (by the transport, or by reading a missing
  client or a missing response array) ends in the \<^verbatim>\<open>catch\<close> block, which logs.
\<close>

definition run_task :: "string \<Rightarrow> nat \<Rightarrow> request \<Rightarrow> hook_state \<Rightarrow> hook_state" where
  "run_task operationID i req st =
     (case client st of
        None \<Rightarrow> log (ErrorPageFailed (i + 1)) st
      | Some send \<Rightarrow>
          (case send req of
             Inl e \<Rightarrow> log (ErrorPageFailed (i + 1)) st
           | Inr response \<Rightarrow>
               if res_status response = 200 then
                 (case partitionResponses st operationID of
                    None \<Rightarrow> log (ErrorPageFailed (i + 1)) st
                  | Some slots \<Rightarrow>
                      st\<lparr> partitionResponses :=
                            (partitionResponses st)(operationID \<mapsto> array_set slots i response) \<rparr>)
               else st))"

text \<open>
  The tasks complete in some order, which the dispatcher does not fix: \<open>order\<close> lists
  the task indices in completion order. A schedule is valid for \<open>n\<close> tasks when it
  names each of them once.
\<close>

definition run_tasks :: "string \<Rightarrow> request list \<Rightarrow> nat list \<Rightarrow> hook_state \<Rightarrow> hook_state" where
  "run_tasks operationID tasks order st =
     fold (\<lambda>i s. if i < length tasks then run_task operationID i (tasks ! i) s else s) order st"

definition valid_schedule :: "nat list \<Rightarrow> nat \<Rightarrow> bool" where
  "valid_schedule order n = (distinct order \<and> set order = {..<n})"

text \<open>\<^verbatim>\<open>slots.filter((e) => e)\<close>: the filled slots, in slot order.\<close>

definition collect :: "'a option list \<Rightarrow> 'a list" where
  "collect slots = List.map_filter id slots"

definition awaitAllRequests ::
  "nat list \<Rightarrow> string \<Rightarrow> hook_state \<Rightarrow> (error + response list option) \<times> hook_state" where
  "awaitAllRequests order operationID st =
     (case partitionRequests st operationID of
        None \<Rightarrow> (Inr None, st)
      | Some requests \<Rightarrow>
          (case jh_rejected requests of
             Some e \<Rightarrow> (Inl e, st)
           | None \<Rightarrow>
               let st1 =
                     (if jh_settled requests then st
                      else (run_tasks operationID (jh_tasks requests) order st)
                             \<lparr> partitionRequests :=
                                 (partitionRequests st)
                                   (operationID \<mapsto> requests\<lparr> jh_settled := True \<rparr>) \<rparr>)
               in (Inr (Some (case partitionResponses st1 operationID of
                                None \<Rightarrow> []
                              | Some slots \<Rightarrow> collect slots)), st1)))"

section \<open>The hook's extension points\<close>

text \<open>
  Each extension point is one step on the hook's state: it takes the state and
  returns its result with the new state. What the background tasks do in the
  meantime shows when their promise is awaited, which is the only place where the
  hook reads their slots.
\<close>

text \<open>
  \<^verbatim>\<open>new Request(request.clone(), {headers, body})\<close> with a \<^verbatim>\<open>FormData\<close> body: the
  method and the URL are the input's, the headers are the given ones, and the
  constructor appends the content type of the body when the given headers have no
  \<^verbatim>\<open>content-type\<close>.
\<close>

definition new_Request :: "'pdf platform \<Rightarrow> request \<Rightarrow> headers \<Rightarrow> form_data \<Rightarrow> request" where
  "new_Request pl input hs body =
     input\<lparr> req_headers :=
              (if has_header hs ''content-type'' then hs
               else hs @ [(''content-type'', multipart_type pl body)]),
            req_body := Some body \<rparr>"

text \<open>
  One iteration of the loop of \<^verbatim>\<open>beforeRequest\<close> over \<^verbatim>\<open>pages.entries()\<close>:
  \<^verbatim>\<open>body.append\<close> of the page as a file, then \<^verbatim>\<open>new Request\<close>.
\<close>

definition page_request ::
  "'pdf platform \<Rightarrow> request \<Rightarrow> headers \<Rightarrow> string \<Rightarrow> form_data \<Rightarrow> nat \<Rightarrow> blob \<Rightarrow> request" where
  "page_request pl request hs fileName body i page =
     new_Request pl request hs
       (fd_append body PARTITION_FORM_FILES_KEY
          (FFile page (fileName @ ''-'' @ string_of_nat (i + 1) @ ''.pdf'')))"

text \<open>The loop; \<open>i\<close> is the index of the first page of the list.\<close>

fun page_requests ::
  "'pdf platform \<Rightarrow> request \<Rightarrow> headers \<Rightarrow> string \<Rightarrow> nat \<Rightarrow> blob list
     \<Rightarrow> error + request list" where
  "page_requests pl request hs fileName i [] = Inr []"
| "page_requests pl request hs fileName i (page # pages) =
     (case prepareRequestBody request of
        Inl e \<Rightarrow> Inl e
      | Inr body \<Rightarrow>
          (case page_requests pl request hs fileName (Suc i) pages of
             Inl e \<Rightarrow> Inl e
           | Inr requests \<Rightarrow>
               Inr (page_request pl request hs fileName body i page # requests)))"

text \<open>
  \<^verbatim>\<open>(formData.get(KEY) as string) ?? "false"\<close>, then \<^verbatim>\<open>stringToBoolean\<close>. The cast
  declares a string; a file under this key is outside it and counts as a TypeError.
\<close>

definition read_split_flag :: "'pdf platform \<Rightarrow> form_data \<Rightarrow> error + bool" where
  "read_split_flag pl formData =
     (case fd_get formData PARTITION_FORM_SPLIT_PDF_PAGE_KEY of
        None \<Rightarrow> Inr (stringToBoolean pl ''false'')
      | Some (FString s) \<Rightarrow> Inr (stringToBoolean pl s)
      | Some (FFile b n) \<Rightarrow> Inl TypeError)"

text \<open>\<^verbatim>\<open>requests.at(-1)\<close>: the last element, \<open>None\<close> (undefined) on an empty array.\<close>

definition at_last :: "'a list \<Rightarrow> 'a option" where
  "at_last xs = (if xs = [] then None else Some (last xs))"

text \<open>
  Lines 221 to 245 of the source: the bound, the response array and the promise
  of \<^verbatim>\<open>async.parallelLimit\<close> over \<^verbatim>\<open>requests.slice(0, -1)\<close>.
\<close>

definition dispatch :: "string \<Rightarrow> request list \<Rightarrow> hook_state \<Rightarrow> hook_state" where
  "dispatch operationID requests st =
     (let st1 = (if parallelLimit st > MAX_NUMBER_OF_PARALLEL_REQUESTS
                 then log (WarnParallelLimit (parallelLimit st)) st else st);
          limit = (if parallelLimit st > MAX_NUMBER_OF_PARALLEL_REQUESTS
                   then MAX_NUMBER_OF_PARALLEL_REQUESTS else parallelLimit st);
          st2 = st1\<lparr> partitionResponses :=
                      (partitionResponses st1)
                        (operationID \<mapsto> replicate (length requests) None) \<rparr>
      in st2\<lparr> partitionRequests :=
                (partitionRequests st2)
                  (operationID \<mapsto> async_parallelLimit (butlast requests) limit) \<rparr>)"

text \<open>Lines 206 to 247 of the source: the split itself, once none of the skips applies.\<close>

definition split_and_dispatch ::
  "'pdf platform \<Rightarrow> string \<Rightarrow> request \<Rightarrow> blob \<Rightarrow> string \<Rightarrow> hook_state
     \<Rightarrow> (error + request option) \<times> hook_state" where
  "split_and_dispatch pl operationID request file name st =
     (let fileName = replace_first ''.pdf'' [] name in
      case getPdfPages pl file of
        Inl e \<Rightarrow> (Inl e, st)
      | Inr pages \<Rightarrow>
          (case page_requests pl request (prepareRequestHeaders request) fileName 0 pages of
             Inl e \<Rightarrow> (Inl e, st)
           | Inr requests \<Rightarrow> (Inr (at_last requests), dispatch operationID requests st)))"

text \<open>
  The result is \<open>Inr (Some r)\<close> for a returned request, \<open>Inr None\<close> for
  \<^verbatim>\<open>undefined\<close>, \<open>Inl e\<close> for a rejected promise.
\<close>

definition beforeRequest ::
  "'pdf platform \<Rightarrow> string \<Rightarrow> request \<Rightarrow> hook_state
     \<Rightarrow> (error + request option) \<times> hook_state" where
  "beforeRequest pl operationID request st =
     (case req_body request of
        None \<Rightarrow> (Inl TypeError, st)
      | Some formData \<Rightarrow>
          (case read_split_flag pl formData of
             Inl e \<Rightarrow> (Inl e, st)
           | Inr splitPdfPage \<Rightarrow>
               if \<not> splitPdfPage then (Inr (Some request), st)
               else
                 (case fd_get formData PARTITION_FORM_FILES_KEY of
                    None \<Rightarrow> (Inr (Some request), log WarnNotPdf st)
                  | Some (FString s) \<Rightarrow> (Inl TypeError, st)
                  | Some (FFile file name) \<Rightarrow>
                      if \<not> endsWith name ''.pdf''
                      then (Inr (Some request), log WarnNotPdf st)
                      else
                        (case client st of
                           None \<Rightarrow> (Inr (Some request), log WarnNoClient st)
                         | Some c \<Rightarrow> split_and_dispatch pl operationID request file name st))))"

text \<open>
  \<^verbatim>\<open>new Response(body, {headers, status, statusText})\<close> with a string body: a status
  outside 200 to 599 is a RangeError, a null-body status is a TypeError since there
  is a body, and the constructor appends \<^verbatim>\<open>content-type: text/plain;charset=UTF-8\<close>
  when the given headers have no \<^verbatim>\<open>content-type\<close>.
\<close>

definition null_body_status :: "int \<Rightarrow> bool" where
  "null_body_status s = (s \<in> set [101, 103, 204, 205, 304])"

definition new_Response :: "string \<Rightarrow> headers \<Rightarrow> int \<Rightarrow> string \<Rightarrow> error + response" where
  "new_Response body hs status statusText =
     (if status < 200 \<or> 599 < status then Inl RangeError
      else if null_body_status status then Inl TypeError
      else Inr \<lparr> res_status = status, res_statusText = statusText,
                 res_headers =
                   (if has_header hs ''content-type'' then hs
                    else hs @ [(''content-type'', ''text/plain;charset=UTF-8'')]),
                 res_body = body \<rparr>)"

text \<open>
  In \<^verbatim>\<open>afterSuccess\<close> the operation is cleared (line 272) before the response is
  built (line 274); in \<^verbatim>\<open>afterError\<close> the response is built (line 308) before the
  operation is cleared (line 314).
\<close>

definition afterSuccess ::
  "'pdf platform \<Rightarrow> nat list \<Rightarrow> string \<Rightarrow> response \<Rightarrow> hook_state
     \<Rightarrow> (error + response) \<times> hook_state" where
  "afterSuccess pl order operationID response st =
     (case awaitAllRequests order operationID st of
        (Inl e, st1) \<Rightarrow> (Inl e, st1)
      | (Inr None, st1) \<Rightarrow> (Inr response, st1)
      | (Inr (Some responses), st1) \<Rightarrow>
          let hs = prepareResponseHeaders response in
          (case prepareResponseBody pl (responses @ [response]) of
             Inl e \<Rightarrow> (Inl e, st1)
           | Inr body \<Rightarrow>
               (new_Response body hs (res_status response) (res_statusText response),
                clearOperation operationID st1)))"

text \<open>
  \<open>response\<close> and \<open>err\<close> are the hook's \<^verbatim>\<open>Response | null\<close> and \<^verbatim>\<open>unknown\<close>
  arguments; the result pairs the returned response with the returned error, \<open>None\<close>
  for \<^verbatim>\<open>null\<close>.
\<close>

definition afterError ::
  "'pdf platform \<Rightarrow> nat list \<Rightarrow> string \<Rightarrow> response option \<Rightarrow> error option \<Rightarrow> hook_state
     \<Rightarrow> (error + response option \<times> error option) \<times> hook_state" where
  "afterError pl order operationID response err st =
     (case awaitAllRequests order operationID st of
        (Inl e, st1) \<Rightarrow> (Inl e, st1)
      | (Inr None, st1) \<Rightarrow> (Inr (response, err), clearOperation operationID st1)
      | (Inr (Some []), st1) \<Rightarrow> (Inr (response, err), clearOperation operationID st1)
      | (Inr (Some (okResponse # rest)), st1) \<Rightarrow>
          let hs = prepareResponseHeaders okResponse in
          (case prepareResponseBody pl (okResponse # rest) of
             Inl e \<Rightarrow> (Inl e, st1)
           | Inr body \<Rightarrow>
               (case new_Response body hs (res_status okResponse) (res_statusText okResponse) of
                  Inl e \<Rightarrow> (Inl e, st1)
                | Inr finalResponse \<Rightarrow>
                    (Inr (Some finalResponse, None), clearOperation operationID st1))))"

section \<open>What the background tasks leave behind\<close>

text \<open>
  Names for the statements about the tasks: \<open>task_result\<close> is the response that the
  task for \<open>req\<close> stores (status 200), if any; \<open>slots_after\<close> is the response array
  once the tasks named by \<open>order\<close> have run; \<open>task_log\<close> is what they wrote to the
  console.
\<close>

definition task_result :: "http_client \<Rightarrow> request \<Rightarrow> response option" where
  "task_result send req =
     (case send req of Inl e \<Rightarrow> None | Inr r \<Rightarrow> if res_status r = 200 then Some r else None)"

definition task_log :: "http_client \<Rightarrow> request list \<Rightarrow> nat list \<Rightarrow> log_entry list" where
  "task_log send tasks order =
     map (\<lambda>i. ErrorPageFailed (i + 1))
       (filter (\<lambda>i. i < length tasks \<and> isl (send (tasks ! i))) order)"

definition slots_after ::
  "http_client \<Rightarrow> request list \<Rightarrow> nat list \<Rightarrow> response option list \<Rightarrow> response option list" where
  "slots_after send tasks order slots =
     map (\<lambda>i. if i \<in> set order \<and> i < length tasks \<and> task_result send (tasks ! i) \<noteq> None
               then task_result send (tasks ! i) else slots ! i) [0 ..< length slots]"

section \<open>Concrete collaborators and inputs\<close>

text \<open>
  A platform, requests, responses and transports on which the theorems below are
  evaluated. A document is given by its page count; \<open>ex_stringify\<close> prints a JSON
  value without white space, \<open>ex_parse\<close> reads the three bodies the examples use.
\<close>

fun join_with :: "string \<Rightarrow> string list \<Rightarrow> string" where
  "join_with sep [] = []"
| "join_with sep [x] = x"
| "join_with sep (x # y # ys) = x @ sep @ join_with sep (y # ys)"

fun ex_stringify :: "json \<Rightarrow> string" where
  "ex_stringify JNull = ''null''"
| "ex_stringify (JBool b) = (if b then ''true'' else ''false'')"
| "ex_stringify (JNum n) =
     (if n < 0 then ''-'' @ string_of_nat (nat (- n)) else string_of_nat (nat n))"
| "ex_stringify (JStr s) = [CHR 0x22] @ s @ [CHR 0x22]"
| "ex_stringify (JArr xs) = ''['' @ join_with '','' (map ex_stringify xs) @ '']''"
| "ex_stringify (JObj kvs) =
     ''{'' @ join_with '',''
              (map (\<lambda>(k, v). [CHR 0x22] @ k @ [CHR 0x22] @ '':'' @ ex_stringify v) kvs) @ ''}''"

definition ex_parse :: "string \<Rightarrow> error + json" where
  "ex_parse s =
     (if s = ''[1]'' then Inr (JArr [JNum 1])
      else if s = ''[2]'' then Inr (JArr [JNum 2])
      else if s = ''[3]'' then Inr (JArr [JNum 3])
      else Inl SyntaxError)"

definition ex_platform :: "nat platform" where
  "ex_platform =
     \<lparr> stringToBoolean = (\<lambda>s. s = ''true''),
       pdf_load = (\<lambda>bytes.
          if bytes = ''%PDF-3'' then Inr 3
          else if bytes = ''%PDF-0'' then Inr 0
          else Inl (Thrown ''Failed to parse PDF document'')),
       pdf_page_count = (\<lambda>n. n),
       pdf_save_page = (\<lambda>n i. Inr (''page '' @ string_of_nat (i + 1))),
       json_parse = ex_parse,
       json_stringify = ex_stringify,
       multipart_type = (\<lambda>fd. ''multipart/form-data; boundary=y'') \<rparr>"

definition ex_blob :: "string \<Rightarrow> blob" where
  "ex_blob bytes = \<lparr> blob_bytes = bytes, blob_type = ''application/pdf'' \<rparr>"

definition ex_form :: "string \<Rightarrow> string \<Rightarrow> string \<Rightarrow> form_data" where
  "ex_form flag bytes name =
     [(''split_pdf_page'', FString flag), (''files'', FFile (ex_blob bytes) name),
      (''strategy'', FString ''fast'')]"

definition ex_request :: "form_data \<Rightarrow> request" where
  "ex_request fd =
     \<lparr> req_method = ''POST'', req_url = ''https://api.example/general/v0/general'',
       req_headers = [(''accept'', ''application/json''),
                      (''content-type'', ''multipart/form-data; boundary=x'')],
       req_body = Some fd \<rparr>"

definition ex_response :: "int \<Rightarrow> string \<Rightarrow> response" where
  "ex_response code body =
     \<lparr> res_status = code, res_statusText = (if code = 200 then ''OK'' else ''Error''),
       res_headers = [(''content-type'', ''application/json''), (''content-length'', ''3'')],
       res_body = body \<rparr>"

definition ex_response_bare :: "int \<Rightarrow> string \<Rightarrow> response" where
  "ex_response_bare code body =
     \<lparr> res_status = code, res_statusText = (if code = 200 then ''OK'' else ''Error''),
       res_headers = [(''content-length'', ''3'')], res_body = body \<rparr>"

definition ex_client_ok :: http_client where
  "ex_client_ok req = Inr (ex_response 200 ''[1]'')"

definition ex_state :: "http_client option \<Rightarrow> int \<Rightarrow> hook_state" where
  "ex_state c limit = init_state\<lparr> client := c, parallelLimit := limit \<rparr>"

text \<open>
  The request derived for one page of the example document, a transport that answers
  by the name of the page file, and the state right after the three-page document
  \<^verbatim>\<open>doc.pdf\<close> was split: two background tasks, three empty slots.
\<close>

definition ex_page_request :: "string \<Rightarrow> string \<Rightarrow> request" where
  "ex_page_request bytes name =
     \<lparr> req_method = ''POST'', req_url = ''https://api.example/general/v0/general'',
       req_headers = [(''accept'', ''application/json''),
                      (''content-type'', ''multipart/form-data; boundary=y'')],
       req_body = Some [(''strategy'', FString ''fast''), (''split_pdf_page'', FString ''false''),
                        (''files'', FFile (ex_blob bytes) name)] \<rparr>"

definition ex_client :: "(string \<Rightarrow> error + response) \<Rightarrow> http_client" where
  "ex_client f req =
     (case req_body req of
        None \<Rightarrow> Inl (Thrown ''no form'')
      | Some fd \<Rightarrow>
          (case fd_get fd ''files'' of
             Some (FFile b name) \<Rightarrow> f name
           | _ \<Rightarrow> Inl (Thrown ''no file'')))"

definition ex_client_mixed :: http_client where
  "ex_client_mixed =
     ex_client (\<lambda>name. if name = ''doc-1.pdf'' then Inr (ex_response 200 ''[1]'')
                        else if name = ''doc-2.pdf'' then Inl (Thrown ''ECONNRESET'')
                        else Inr (ex_response 200 ''[3]''))"

definition ex_client_pages :: http_client where
  "ex_client_pages =
     ex_client (\<lambda>name. if name = ''doc-1.pdf'' then Inr (ex_response 200 ''[1]'')
                        else if name = ''doc-2.pdf'' then Inr (ex_response 200 ''[2]'')
                        else Inr (ex_response 200 ''[3]''))"

definition ex_client_404 :: http_client where
  "ex_client_404 = ex_client (\<lambda>name. Inr (ex_response 404 ''[]''))"



definition ex_handle :: join_handle where
  "ex_handle =
     \<lparr> jh_tasks = [ex_page_request ''page 1'' ''doc-1.pdf'', ex_page_request ''page 2'' ''doc-2.pdf''],
       jh_limit = 5, jh_rejected = None, jh_settled = False \<rparr>"

definition ex_op_state :: "http_client \<Rightarrow> response option list \<Rightarrow> hook_state" where
  "ex_op_state c slots =
     (ex_state (Some c) 5)
       \<lparr> partitionResponses := [''partition'' \<mapsto> slots],
         partitionRequests := [''partition'' \<mapsto> ex_handle] \<rparr>"

section \<open>Facts about the helpers\<close>

lemma prepareRequestBody_Some:
  "req_body request = Some fd \<Longrightarrow>
   prepareRequestBody request =
     Inr (fd_append
            (fd_delete (fd_delete fd PARTITION_FORM_SPLIT_PDF_PAGE_KEY) PARTITION_FORM_FILES_KEY)
            PARTITION_FORM_SPLIT_PDF_PAGE_KEY (FString ''false''))"
  by (simp add: prepareRequestBody_def)

lemma page_requests_Inr:
  "prepareRequestBody request = Inr body \<Longrightarrow>
   page_requests pl request hs fileName i pages =
     Inr (map2 (page_request pl request hs fileName body) [i ..< i + length pages] pages)"
proof (induction pages arbitrary: i)
  case Nil
  then show ?case by simp
next
  case (Cons page pages)
  have "[i ..< i + length (page # pages)] = i # [Suc i ..< Suc i + length pages]"
    using upt_conv_Cons [of i "i + length (page # pages)"] by simp
  with Cons show ?case
    by simp
qed

lemma beforeRequest_split:
  assumes "req_body request = Some fd"
    and "read_split_flag pl fd = Inr True"
    and "fd_get fd PARTITION_FORM_FILES_KEY = Some (FFile file name)"
    and "endsWith name ''.pdf''"
    and "client st = Some c"
  shows "beforeRequest pl operationID request st =
         split_and_dispatch pl operationID request file name st"
  using assms by (simp add: beforeRequest_def)

lemma dispatch_partitionRequests:
  "partitionRequests (dispatch operationID requests st) operationID =
     Some (async_parallelLimit (butlast requests)
             (min (parallelLimit st) MAX_NUMBER_OF_PARALLEL_REQUESTS))"
  by (simp add: dispatch_def Let_def min_def)

lemma async_parallelLimit_simps [simp]:
  "jh_tasks (async_parallelLimit tasks limit) = tasks"
  "jh_limit (async_parallelLimit tasks limit) = limit"
  "jh_settled (async_parallelLimit tasks limit) = False"
  "jh_rejected (async_parallelLimit tasks limit) = (if limit \<le> 0 then Some RangeError else None)"
  by (simp_all add: async_parallelLimit_def)

lemma dispatch_partitionResponses:
  "partitionResponses (dispatch operationID requests st) operationID =
     Some (replicate (length requests) None)"
  by (simp add: dispatch_def Let_def log_def)

lemma dispatch_console:
  "console (dispatch operationID requests st) =
     (if parallelLimit st > MAX_NUMBER_OF_PARALLEL_REQUESTS
      then console st @ [WarnParallelLimit (parallelLimit st)] else console st)"
  by (simp add: dispatch_def Let_def log_def)

lemma split_and_dispatch_pages:
  assumes "getPdfPages pl file = Inr pages"
    and "prepareRequestBody request = Inr body"
  shows "split_and_dispatch pl operationID request file name st =
           (let requests = map2 (page_request pl request (prepareRequestHeaders request)
                                   (replace_first ''.pdf'' [] name) body)
                             [0 ..< length pages] pages
            in (Inr (at_last requests), dispatch operationID requests st))"
  using assms(1)
  by (simp add: split_and_dispatch_def Let_def page_requests_Inr [OF assms(2)])

text \<open>The example platform on the example documents.\<close>

lemma ex_read_split_flag:
  "read_split_flag ex_platform (ex_form flag bytes name) = Inr (flag = ''true'')"
  by (simp add: read_split_flag_def ex_form_def fd_get_def ex_platform_def
      PARTITION_FORM_SPLIT_PDF_PAGE_KEY_def)

lemma ex_fd_get_files:
  "fd_get (ex_form flag bytes name) PARTITION_FORM_FILES_KEY = Some (FFile (ex_blob bytes) name)"
  by (simp add: ex_form_def fd_get_def PARTITION_FORM_FILES_KEY_def)

lemma ex_getPdfPages_3:
  "getPdfPages ex_platform (ex_blob ''%PDF-3'') =
     Inr [ex_blob ''page 1'', ex_blob ''page 2'', ex_blob ''page 3'']"
  by (simp add: getPdfPages_def ex_platform_def ex_blob_def upt_rec pdfPageToBlob_def
      string_of_nat.simps digit_char_def)

lemma ex_getPdfPages_0: "getPdfPages ex_platform (ex_blob ''%PDF-0'') = Inr []"
  by (simp add: getPdfPages_def ex_platform_def ex_blob_def)

lemma ex_getPdfPages_bad:
  "getPdfPages ex_platform (ex_blob ''garbage'') = Inl (Thrown ''Failed to parse PDF document'')"
  by (simp add: getPdfPages_def ex_platform_def ex_blob_def)

lemma endsWith_doc_pdf: "endsWith ''doc.pdf'' ''.pdf''"
  by (simp add: endsWith_def suffix_def)

lemma ex_req_body:
  "req_body (ex_request fd) = Some fd"
  by (simp add: ex_request_def)

lemma ex_client_state: "client (ex_state (Some c) n) = Some c"
  by (simp add: ex_state_def)

lemma ex_handle_tasks:
  "jh_tasks ex_handle = [ex_page_request ''page 1'' ''doc-1.pdf'', ex_page_request ''page 2'' ''doc-2.pdf'']"
  "\<not> jh_settled ex_handle"
  "jh_rejected ex_handle = None"
  by (simp_all add: ex_handle_def)

lemma ex_op_state_simps:
  "client (ex_op_state c slots) = Some c"
  "partitionRequests (ex_op_state c slots) ''partition'' = Some ex_handle"
  "partitionResponses (ex_op_state c slots) ''partition'' = Some slots"
  "console (ex_op_state c slots) = []"
  by (simp_all add: ex_op_state_def ex_state_def init_state_def)

lemma ex_client_page:
  "ex_client f (ex_page_request bytes name) = f name"
  by (simp add: ex_client_def ex_page_request_def fd_get_def)

lemma ex_beforeRequest_doc:
  "beforeRequest ex_platform ''partition'' (ex_request (ex_form ''true'' ''%PDF-3'' ''doc.pdf''))
     (ex_state (Some c) 5) =
     (Inr (Some (ex_page_request ''page 3'' ''doc-3.pdf'')), ex_op_state c [None, None, None])"
  unfolding beforeRequest_split [OF ex_req_body ex_read_split_flag [of "''true''", simplified]
      ex_fd_get_files endsWith_doc_pdf ex_client_state]
    split_and_dispatch_pages [OF ex_getPdfPages_3 prepareRequestBody_Some [OF ex_req_body]]
  by (simp add: Let_def upt_rec page_request_def new_Request_def has_header_def
      fd_append_def fd_delete_def ex_form_def
      PARTITION_FORM_SPLIT_PDF_PAGE_KEY_def PARTITION_FORM_FILES_KEY_def
      prepareRequestHeaders_def headers_delete_def ex_request_def ex_platform_def
      string_of_nat.simps digit_char_def at_last_def ex_page_request_def
      dispatch_def MAX_NUMBER_OF_PARALLEL_REQUESTS_def ex_state_def init_state_def
      ex_op_state_def ex_handle_def async_parallelLimit_def)

lemma valid_schedule_10: "valid_schedule [1, 0] (length (jh_tasks ex_handle))"
  by (auto simp add: valid_schedule_def ex_handle_def)

section \<open>The concurrency bound\<close>

text \<open>
  Claim C4, as the code has it. Whenever \<^verbatim>\<open>beforeRequest\<close> splits (the form
  parses, the split flag is true, the file is a PDF, a client is set and the document
  paginates), the bound stored for the dispatcher is \<open>min configured 15\<close>; when the
  configured value exceeds 15, the warning is written and nothing else is; the static
  field starts at 5, which is the value in effect while nothing was configured. A
  configured value of 0 or less is handed to the dispatcher as it is: there is no
  fallback to 5.
\<close>

theorem parallel_limit_bound:
  assumes "req_body request = Some fd"
    and "read_split_flag pl fd = Inr True"
    and "fd_get fd PARTITION_FORM_FILES_KEY = Some (FFile file name)"
    and "endsWith name ''.pdf''"
    and "client st = Some c"
    and "getPdfPages pl file = Inr pages"
  shows "map_option jh_limit
           (partitionRequests (snd (beforeRequest pl operationID request st)) operationID) =
           Some (min (parallelLimit st) 15)
         \<and> console (snd (beforeRequest pl operationID request st)) =
             (if parallelLimit st > 15
              then console st @ [WarnParallelLimit (parallelLimit st)] else console st)
         \<and> parallelLimit init_state = 5"
proof -
  have b: "prepareRequestBody request =
     Inr (fd_append
            (fd_delete (fd_delete fd PARTITION_FORM_SPLIT_PDF_PAGE_KEY) PARTITION_FORM_FILES_KEY)
            PARTITION_FORM_SPLIT_PDF_PAGE_KEY (FString ''false''))"
    using assms(1) by (rule prepareRequestBody_Some)
  show ?thesis
    by (simp add: beforeRequest_split [OF assms(1-5)]
        split_and_dispatch_pages [OF assms(6) b] Let_def
        dispatch_partitionRequests dispatch_console
        MAX_NUMBER_OF_PARALLEL_REQUESTS_def init_state_def)
qed

theorem parallel_limit_bound_witness:
  "map_option jh_limit
     (partitionRequests
        (snd (beforeRequest ex_platform ''partition''
                (ex_request (ex_form ''true'' ''%PDF-3'' ''doc.pdf''))
                (ex_state (Some ex_client_ok) 20))) ''partition'') = Some 15
   \<and> console
       (snd (beforeRequest ex_platform ''partition''
               (ex_request (ex_form ''true'' ''%PDF-3'' ''doc.pdf''))
               (ex_state (Some ex_client_ok) 20))) = [WarnParallelLimit 20]"
proof -
  have h1: "req_body (ex_request (ex_form ''true'' ''%PDF-3'' ''doc.pdf'')) =
              Some (ex_form ''true'' ''%PDF-3'' ''doc.pdf'')"
    by (simp add: ex_request_def)
  have h2: "read_split_flag ex_platform (ex_form ''true'' ''%PDF-3'' ''doc.pdf'') = Inr True"
    by (simp add: ex_read_split_flag)
  have h5: "client (ex_state (Some ex_client_ok) 20) = Some ex_client_ok"
    by (simp add: ex_state_def)
  show ?thesis
    using parallel_limit_bound [OF h1 h2 ex_fd_get_files endsWith_doc_pdf h5 ex_getPdfPages_3,
        of "''partition''"]
    by (simp add: ex_state_def init_state_def)
qed

text \<open>
  With the static field set to 0 the bound handed to the dispatcher is 0, not the
  default 5.
\<close>

theorem parallel_limit_fallback_counterexample:
  "parallelLimit (ex_state (Some ex_client_ok) 0) \<le> 0
   \<and> map_option jh_limit
       (partitionRequests
          (snd (beforeRequest ex_platform ''partition''
                  (ex_request (ex_form ''true'' ''%PDF-3'' ''doc.pdf''))
                  (ex_state (Some ex_client_ok) 0))) ''partition'') = Some 0
   \<and> map_option jh_limit
       (partitionRequests
          (snd (beforeRequest ex_platform ''partition''
                  (ex_request (ex_form ''true'' ''%PDF-3'' ''doc.pdf''))
                  (ex_state (Some ex_client_ok) 0))) ''partition'') \<noteq> Some 5"
proof -
  have h1: "req_body (ex_request (ex_form ''true'' ''%PDF-3'' ''doc.pdf'')) =
              Some (ex_form ''true'' ''%PDF-3'' ''doc.pdf'')"
    by (simp add: ex_request_def)
  have h2: "read_split_flag ex_platform (ex_form ''true'' ''%PDF-3'' ''doc.pdf'') = Inr True"
    by (simp add: ex_read_split_flag)
  have h5: "client (ex_state (Some ex_client_ok) 0) = Some ex_client_ok"
    by (simp add: ex_state_def)
  have p: "parallelLimit (ex_state (Some ex_client_ok) 0) = 0"
    by (simp add: ex_state_def)
  show ?thesis
    unfolding beforeRequest_split [OF h1 h2 ex_fd_get_files endsWith_doc_pdf h5]
      split_and_dispatch_pages [OF ex_getPdfPages_3 prepareRequestBody_Some [OF h1]]
    by (simp add: Let_def dispatch_partitionRequests MAX_NUMBER_OF_PARALLEL_REQUESTS_def p)
qed

section \<open>The skip paths of beforeRequest\<close>

text \<open>
  Claim C5, as the code has it. Take a request whose form parses, whose split flag
  reads as \<open>flag\<close> and whose \<^verbatim>\<open>files\<close> entry, if any, is a file. If the flag is
  false, or there is no file whose name ends in \<^verbatim>\<open>.pdf\<close>, or no client is set, then
  \<^verbatim>\<open>beforeRequest\<close> returns the original request and changes nothing of the state
  but the console: nothing is written when the flag is false, the warning
  "Given file is not a PDF" when the flag is true and the file is missing or not a
  PDF, and the warning "HTTP client not accessible" when only the client is missing.
\<close>

theorem skip_paths:
  assumes "req_body request = Some fd"
    and "read_split_flag pl fd = Inr flag"
    and "\<forall>s. fd_get fd PARTITION_FORM_FILES_KEY \<noteq> Some (FString s)"
    and "is_pdf = (case fd_get fd PARTITION_FORM_FILES_KEY of
                     Some (FFile f name) \<Rightarrow> endsWith name ''.pdf'' | _ \<Rightarrow> False)"
    and "\<not> flag \<or> \<not> is_pdf \<or> client st = None"
  shows "beforeRequest pl operationID request st =
           (Inr (Some request),
            st\<lparr> console := console st @
                   (if \<not> flag then [] else if \<not> is_pdf then [WarnNotPdf] else [WarnNoClient]) \<rparr>)"
  using assms
  by (auto simp add: beforeRequest_def log_def split: option.splits form_value.splits)

theorem skip_paths_witness:
  "beforeRequest ex_platform ''partition'' (ex_request (ex_form ''true'' ''%PDF-3'' ''doc.pdf''))
     (ex_state None 5) =
     (Inr (Some (ex_request (ex_form ''true'' ''%PDF-3'' ''doc.pdf''))),
      (ex_state None 5)\<lparr> console := [WarnNoClient] \<rparr>)"
proof -
  have h1: "req_body (ex_request (ex_form ''true'' ''%PDF-3'' ''doc.pdf'')) =
              Some (ex_form ''true'' ''%PDF-3'' ''doc.pdf'')"
    by (simp add: ex_request_def)
  have h2: "read_split_flag ex_platform (ex_form ''true'' ''%PDF-3'' ''doc.pdf'') = Inr True"
    by (simp add: ex_read_split_flag)
  have h3: "\<forall>s. fd_get (ex_form ''true'' ''%PDF-3'' ''doc.pdf'') PARTITION_FORM_FILES_KEY
              \<noteq> Some (FString s)"
    by (simp add: ex_fd_get_files)
  have h4: "True = (case fd_get (ex_form ''true'' ''%PDF-3'' ''doc.pdf'') PARTITION_FORM_FILES_KEY of
                      Some (FFile f name) \<Rightarrow> endsWith name ''.pdf'' | _ \<Rightarrow> False)"
    by (simp add: ex_fd_get_files endsWith_doc_pdf)
  have h5: "\<not> True \<or> \<not> True \<or> client (ex_state None 5) = None"
    by (simp add: ex_state_def)
  show ?thesis
    using skip_paths [OF h1 h2 h3 h4 h5, of "''partition''"]
    by (simp add: ex_state_def init_state_def)
qed

text \<open>
  A text file sent with the split flag set: the request is skipped because the file
  is not a PDF, and a warning is written.
\<close>

theorem skip_not_pdf_warns_counterexample:
  "\<not> endsWith ''notes.txt'' ''.pdf''
   \<and> console
       (snd (beforeRequest ex_platform ''partition''
               (ex_request (ex_form ''true'' ''hello'' ''notes.txt''))
               (ex_state (Some ex_client_ok) 5))) = [WarnNotPdf]
   \<and> console (ex_state (Some ex_client_ok) 5) = []"
  by (simp add: beforeRequest_def ex_request_def ex_read_split_flag ex_fd_get_files
      endsWith_def suffix_def log_def ex_state_def init_state_def)

section \<open>A document that cannot be paginated\<close>

lemma pages_loop_fail:
  assumes "\<forall>j\<in>set xs. \<exists>b. pdf_save_page pl pdf j = Inr b"
    and "pdf_save_page pl pdf i = Inl e"
  shows "pages_loop pl pdf (xs @ i # ys) = Inl e"
  using assms
  by (induction xs) (auto simp add: pdfPageToBlob_def)

lemma getPdfPages_fail:
  assumes "pdf_load pl (blob_bytes file) = Inl e
           \<or> (\<exists>pdf i. pdf_load pl (blob_bytes file) = Inr pdf \<and> i < pdf_page_count pl pdf
                  \<and> (\<forall>j<i. \<exists>b. pdf_save_page pl pdf j = Inr b)
                  \<and> pdf_save_page pl pdf i = Inl e)"
  shows "getPdfPages pl file = Inl e"
  using assms
proof
  assume "pdf_load pl (blob_bytes file) = Inl e"
  then show ?thesis by (simp add: getPdfPages_def)
next
  assume "\<exists>pdf i. pdf_load pl (blob_bytes file) = Inr pdf \<and> i < pdf_page_count pl pdf
                  \<and> (\<forall>j<i. \<exists>b. pdf_save_page pl pdf j = Inr b)
                  \<and> pdf_save_page pl pdf i = Inl e"
  then obtain pdf i where l: "pdf_load pl (blob_bytes file) = Inr pdf"
    and i: "i < pdf_page_count pl pdf"
    and ok: "\<forall>j<i. \<exists>b. pdf_save_page pl pdf j = Inr b"
    and bad: "pdf_save_page pl pdf i = Inl e"
    by blast
  have "[0 ..< pdf_page_count pl pdf] = [0 ..< i] @ i # [Suc i ..< pdf_page_count pl pdf]"
  proof -
    have "[0 ..< i + (pdf_page_count pl pdf - i)] =
            [0 ..< i] @ [i ..< i + (pdf_page_count pl pdf - i)]"
      by (rule upt_add_eq_append) simp
    then show ?thesis using i by (simp add: upt_conv_Cons)
  qed
  moreover have "\<forall>j\<in>set [0 ..< i]. \<exists>b. pdf_save_page pl pdf j = Inr b"
    using ok by simp
  ultimately show ?thesis
    using l pages_loop_fail [OF _ bad, of "[0 ..< i]"] by (simp add: getPdfPages_def)
qed

text \<open>
  Claim C9. On the split path (the form parses, the split flag is true, the file is
  a PDF by name, a client is set), when the paging capability fails with \<open>e\<close>, either
  on loading the document or on the first page it cannot extract, \<^verbatim>\<open>beforeRequest\<close>
  fails with the same \<open>e\<close> and the hook's state is what it was: no response array,
  no promise of background requests, no console output.
\<close>

theorem split_failure_propagates:
  assumes "req_body request = Some fd"
    and "read_split_flag pl fd = Inr True"
    and "fd_get fd PARTITION_FORM_FILES_KEY = Some (FFile file name)"
    and "endsWith name ''.pdf''"
    and "client st = Some c"
    and "pdf_load pl (blob_bytes file) = Inl e
         \<or> (\<exists>pdf i. pdf_load pl (blob_bytes file) = Inr pdf \<and> i < pdf_page_count pl pdf
                \<and> (\<forall>j<i. \<exists>b. pdf_save_page pl pdf j = Inr b)
                \<and> pdf_save_page pl pdf i = Inl e)"
  shows "beforeRequest pl operationID request st = (Inl e, st)"
  using getPdfPages_fail [OF assms(6)]
  by (simp add: beforeRequest_split [OF assms(1-5)] split_and_dispatch_def)

theorem split_failure_propagates_witness:
  "beforeRequest ex_platform ''partition'' (ex_request (ex_form ''true'' ''garbage'' ''doc.pdf''))
     (ex_state (Some ex_client_ok) 5) =
     (Inl (Thrown ''Failed to parse PDF document''), ex_state (Some ex_client_ok) 5)"
proof -
  have h1: "req_body (ex_request (ex_form ''true'' ''garbage'' ''doc.pdf'')) =
              Some (ex_form ''true'' ''garbage'' ''doc.pdf'')"
    by (simp add: ex_request_def)
  have h2: "read_split_flag ex_platform (ex_form ''true'' ''garbage'' ''doc.pdf'') = Inr True"
    by (simp add: ex_read_split_flag)
  have h5: "client (ex_state (Some ex_client_ok) 5) = Some ex_client_ok"
    by (simp add: ex_state_def)
  have h6: "pdf_load ex_platform (blob_bytes (ex_blob ''garbage'')) =
              Inl (Thrown ''Failed to parse PDF document'')
            \<or> (\<exists>pdf i. pdf_load ex_platform (blob_bytes (ex_blob ''garbage'')) = Inr pdf
                  \<and> i < pdf_page_count ex_platform pdf
                  \<and> (\<forall>j<i. \<exists>b. pdf_save_page ex_platform pdf j = Inr b)
                  \<and> pdf_save_page ex_platform pdf i = Inl (Thrown ''Failed to parse PDF document''))"
    by (simp add: ex_platform_def ex_blob_def)
  show ?thesis
    using split_failure_propagates [OF h1 h2 ex_fd_get_files endsWith_doc_pdf h5 h6] .
qed

section \<open>A document without pages\<close>

text \<open>
  Claim C10. On the split path, when the document has no page the list of derived
  requests is empty, no background task is registered and \<^verbatim>\<open>beforeRequest\<close> returns
  \<^verbatim>\<open>undefined\<close> (\<open>Inr None\<close>) where a \<^verbatim>\<open>Request\<close> is declared; with at least one
  page it returns a request.
\<close>

theorem zero_pages_returns_undefined:
  assumes "req_body request = Some fd"
    and "read_split_flag pl fd = Inr True"
    and "fd_get fd PARTITION_FORM_FILES_KEY = Some (FFile file name)"
    and "endsWith name ''.pdf''"
    and "client st = Some c"
    and "getPdfPages pl file = Inr pages"
  shows "(pages = [] \<longrightarrow>
            fst (beforeRequest pl operationID request st) = Inr None
            \<and> map_option jh_tasks
                (partitionRequests (snd (beforeRequest pl operationID request st)) operationID) =
                Some [])
         \<and> (pages \<noteq> [] \<longrightarrow> (\<exists>r. fst (beforeRequest pl operationID request st) = Inr (Some r)))"
proof -
  have b: "prepareRequestBody request =
     Inr (fd_append
            (fd_delete (fd_delete fd PARTITION_FORM_SPLIT_PDF_PAGE_KEY) PARTITION_FORM_FILES_KEY)
            PARTITION_FORM_SPLIT_PDF_PAGE_KEY (FString ''false''))"
    using assms(1) by (rule prepareRequestBody_Some)
  show ?thesis
    by (simp add: beforeRequest_split [OF assms(1-5)]
        split_and_dispatch_pages [OF assms(6) b] Let_def at_last_def
        dispatch_partitionRequests)
qed

theorem zero_pages_returns_undefined_witness:
  "fst (beforeRequest ex_platform ''partition'' (ex_request (ex_form ''true'' ''%PDF-0'' ''doc.pdf''))
          (ex_state (Some ex_client_ok) 5)) = Inr None
   \<and> map_option jh_tasks
       (partitionRequests
          (snd (beforeRequest ex_platform ''partition''
                  (ex_request (ex_form ''true'' ''%PDF-0'' ''doc.pdf''))
                  (ex_state (Some ex_client_ok) 5))) ''partition'') = Some []"
proof -
  have h1: "req_body (ex_request (ex_form ''true'' ''%PDF-0'' ''doc.pdf'')) =
              Some (ex_form ''true'' ''%PDF-0'' ''doc.pdf'')"
    by (simp add: ex_request_def)
  have h2: "read_split_flag ex_platform (ex_form ''true'' ''%PDF-0'' ''doc.pdf'') = Inr True"
    by (simp add: ex_read_split_flag)
  have h5: "client (ex_state (Some ex_client_ok) 5) = Some ex_client_ok"
    by (simp add: ex_state_def)
  show ?thesis
    using zero_pages_returns_undefined
      [OF h1 h2 ex_fd_get_files endsWith_doc_pdf h5 ex_getPdfPages_0, of "''partition''"]
    by simp
qed

section \<open>The derived page requests\<close>

lemma prefix_append_short:
  "prefix xs (ys @ zs) \<Longrightarrow> length xs \<le> length ys \<Longrightarrow> prefix xs ys"
  using prefix_length_prefix by fastforce

lemma replace_first_suffix:
  assumes "pat \<noteq> []" and "\<not> sublist pat (stem @ butlast pat)"
  shows "replace_first pat [] (stem @ pat) = stem"
  using assms(2)
proof (induction stem)
  case Nil
  obtain c cs where "pat = c # cs" using assms(1) by (cases pat) auto
  then show ?case by simp
next
  case (Cons c stem)
  have np: "\<not> prefix pat ((c # stem) @ butlast pat)"
    using Cons.prems by (auto simp add: sublist_Cons_right)
  have "\<not> prefix pat (c # stem @ pat)"
  proof
    assume p: "prefix pat (c # stem @ pat)"
    have "c # stem @ pat = ((c # stem) @ butlast pat) @ [last pat]"
      using assms(1) by simp
    moreover have "length pat \<le> length ((c # stem) @ butlast pat)"
      by simp
    ultimately have "prefix pat ((c # stem) @ butlast pat)"
      using p prefix_append_short by metis
    with np show False by simp
  qed
  moreover have "\<not> sublist pat (stem @ butlast pat)"
    using Cons.prems by (auto simp add: sublist_Cons_right)
  ultimately show ?case
    using Cons.IH by simp
qed

lemma has_header_headers_delete [simp]: "\<not> has_header (headers_delete hs name) name"
  by (auto simp add: has_header_def headers_delete_def)

lemma page_request_literal:
  "page_request pl request (headers_delete hs ''content-type'') fileName body i page =
     \<lparr> req_method = req_method request, req_url = req_url request,
       req_headers = headers_delete hs ''content-type'' @
         [(''content-type'',
           multipart_type pl
             (body @ [(PARTITION_FORM_FILES_KEY,
                       FFile page (fileName @ ''-'' @ string_of_nat (i + 1) @ ''.pdf''))]))],
       req_body = Some (body @ [(PARTITION_FORM_FILES_KEY,
                   FFile page (fileName @ ''-'' @ string_of_nat (i + 1) @ ''.pdf''))]) \<rparr>"
  by (simp add: page_request_def new_Request_def fd_append_def)

lemma pages_loop_ok:
  assumes "\<forall>k\<in>set ks. pdf_save_page pl pdf k = Inr (page_bytes k)"
  shows "pages_loop pl pdf ks =
           Inr (map (\<lambda>k. \<lparr> blob_bytes = page_bytes k, blob_type = ''application/pdf'' \<rparr>) ks)"
  using assms by (induction ks) (simp_all add: pdfPageToBlob_def)

lemma getPdfPages_ok:
  assumes "pdf_load pl (blob_bytes file) = Inr pdf"
    and "\<forall>k<pdf_page_count pl pdf. pdf_save_page pl pdf k = Inr (page_bytes k)"
  shows "getPdfPages pl file =
           Inr (map (\<lambda>k. \<lparr> blob_bytes = page_bytes k, blob_type = ''application/pdf'' \<rparr>)
                  [0 ..< pdf_page_count pl pdf])"
  using assms by (simp add: getPdfPages_def pages_loop_ok)

lemma map2_map_same: "map2 f xs (map g xs) = map (\<lambda>x. f x (g x)) xs"
  by (induction xs) simp_all

text \<open>
  Claim C6, as the code has it. On the split path, take a file named
  \<open>stem @ ''.pdf''\<close> in which \<^verbatim>\<open>.pdf\<close> occurs nowhere before that suffix, and a
  document that loads and has \<open>N\<close> pages, page \<open>k\<close> being extracted as \<open>page_bytes k\<close>.
  Then \<^verbatim>\<open>beforeRequest\<close> builds exactly the \<open>N\<close> requests of \<open>requests\<close>, in page
  order: request \<open>k\<close> (from 0) has the method and URL of the source; its form \<open>form k\<close>
  is the other fields of the source form followed by one \<^verbatim>\<open>split_pdf_page\<close> field
  "false" and one \<^verbatim>\<open>files\<close> field holding page \<open>k\<close> under the name \<open>stem-(k+1).pdf\<close>;
  its headers are those of the source without the source's \<^verbatim>\<open>content-type\<close>, followed
  by the \<^verbatim>\<open>content-type\<close> that the platform computes for \<open>form k\<close>. All but the last
  are handed to the dispatcher; the last is returned when \<open>N \<ge> 1\<close>.
\<close>

theorem derived_page_requests:
  assumes "req_body request = Some fd"
    and "read_split_flag pl fd = Inr True"
    and "fd_get fd PARTITION_FORM_FILES_KEY = Some (FFile file (stem @ ''.pdf''))"
    and "\<not> sublist ''.pdf'' (stem @ ''.pd'')"
    and "client st = Some c"
    and "pdf_load pl (blob_bytes file) = Inr pdf"
    and "N = pdf_page_count pl pdf"
    and "\<forall>k<N. pdf_save_page pl pdf k = Inr (page_bytes k)"
    and "form =
          (\<lambda>k. filter (\<lambda>e. fst e \<noteq> ''split_pdf_page'' \<and> fst e \<noteq> ''files'') fd
               @ [(''split_pdf_page'', FString ''false''),
                  (''files'',
                   FFile \<lparr> blob_bytes = page_bytes k, blob_type = ''application/pdf'' \<rparr>
                     (stem @ ''-'' @ string_of_nat (k + 1) @ ''.pdf''))])"
    and "requests =
          map (\<lambda>k.
                 \<lparr> req_method = req_method request, req_url = req_url request,
                   req_headers =
                     filter (\<lambda>h. fst h \<noteq> ''content-type'') (req_headers request)
                     @ [(''content-type'', multipart_type pl (form k))],
                   req_body = Some (form k) \<rparr>)
            [0 ..< N]"
  shows "length requests = N
         \<and> map_option jh_tasks
             (partitionRequests (snd (beforeRequest pl operationID request st)) operationID) =
             Some (butlast requests)
         \<and> fst (beforeRequest pl operationID request st) = Inr (at_last requests)
         \<and> (0 < N \<longrightarrow>
              fst (beforeRequest pl operationID request st) = Inr (Some (last requests)))"
proof -
  have e: "endsWith (stem @ ''.pdf'') ''.pdf''"
    unfolding endsWith_def by (rule suffixI) simp
  have b: "prepareRequestBody request =
     Inr (fd_append
            (fd_delete (fd_delete fd PARTITION_FORM_SPLIT_PDF_PAGE_KEY) PARTITION_FORM_FILES_KEY)
            PARTITION_FORM_SPLIT_PDF_PAGE_KEY (FString ''false''))"
    using assms(1) by (rule prepareRequestBody_Some)
  have s: "replace_first ''.pdf'' [] (stem @ ''.pdf'') = stem"
    using assms(4) by (intro replace_first_suffix) simp_all
  have g: "getPdfPages pl file =
             Inr (map (\<lambda>k. \<lparr> blob_bytes = page_bytes k, blob_type = ''application/pdf'' \<rparr>)
                    [0 ..< N])"
    using getPdfPages_ok [OF assms(6), of page_bytes] assms(7,8) by simp
  have r: "map2 (page_request pl request (prepareRequestHeaders request) stem
       (fd_append
            (fd_delete (fd_delete fd PARTITION_FORM_SPLIT_PDF_PAGE_KEY) PARTITION_FORM_FILES_KEY)
            PARTITION_FORM_SPLIT_PDF_PAGE_KEY (FString ''false'')))
         [0 ..< N]
         (map (\<lambda>k. \<lparr> blob_bytes = page_bytes k, blob_type = ''application/pdf'' \<rparr>) [0 ..< N])
        = requests"
    unfolding assms(10) assms(9) map2_map_same prepareRequestHeaders_def page_request_literal
    by (simp add: headers_delete_def fd_append_def fd_delete_def
        PARTITION_FORM_SPLIT_PDF_PAGE_KEY_def PARTITION_FORM_FILES_KEY_def)
  have n: "length requests = N"
    by (simp add: assms(10))
  have br: "beforeRequest pl operationID request st =
          (Inr (at_last requests), dispatch operationID requests st)"
    using r
    by (simp add: beforeRequest_split [OF assms(1-3) e assms(5)]
        split_and_dispatch_pages [OF g b] Let_def s)
  have "0 < N \<Longrightarrow> requests \<noteq> []"
    using n by auto
  then show ?thesis
    by (simp add: br n dispatch_partitionRequests at_last_def)
qed

theorem derived_page_requests_witness:
  "map_option jh_tasks
     (partitionRequests
        (snd (beforeRequest ex_platform ''partition''
                (ex_request (ex_form ''true'' ''%PDF-3'' ''doc.pdf''))
                (ex_state (Some ex_client_ok) 5))) ''partition'') =
     Some [ex_page_request ''page 1'' ''doc-1.pdf'', ex_page_request ''page 2'' ''doc-2.pdf'']
   \<and> fst (beforeRequest ex_platform ''partition''
            (ex_request (ex_form ''true'' ''%PDF-3'' ''doc.pdf''))
            (ex_state (Some ex_client_ok) 5)) =
       Inr (Some (ex_page_request ''page 3'' ''doc-3.pdf''))"
proof -
  have h2: "read_split_flag ex_platform (ex_form ''true'' ''%PDF-3'' ''doc.pdf'') = Inr True"
    by (simp add: ex_read_split_flag)
  have h3: "fd_get (ex_form ''true'' ''%PDF-3'' ''doc.pdf'') PARTITION_FORM_FILES_KEY =
              Some (FFile (ex_blob ''%PDF-3'') (''doc'' @ ''.pdf''))"
    by (simp add: ex_fd_get_files)
  have h4: "\<not> sublist ''.pdf'' (''doc'' @ ''.pd'')"
    by (simp add: sublist_code)
  have h6: "pdf_load ex_platform (blob_bytes (ex_blob ''%PDF-3'')) = Inr 3"
    by (simp add: ex_platform_def ex_blob_def)
  have h7: "(3::nat) = pdf_page_count ex_platform 3"
    by (simp add: ex_platform_def)
  have h8: "\<forall>k<3. pdf_save_page ex_platform 3 k = Inr (''page '' @ string_of_nat (k + 1))"
    by (simp add: ex_platform_def)
  show ?thesis
    using derived_page_requests [OF ex_req_body h2 h3 h4 ex_client_state h6 h7 h8 refl refl,
        of "''partition''"]
    by (simp add: upt_rec ex_form_def ex_request_def ex_page_request_def ex_blob_def
        string_of_nat.simps digit_char_def at_last_def ex_platform_def)
qed

text \<open>
  The request returned for the three-page \<^verbatim>\<open>doc.pdf\<close> carries a \<^verbatim>\<open>content-type\<close>
  header: the one the constructor computed for its form, in place of the source's.
\<close>

theorem derived_content_type_counterexample:
  "fst (beforeRequest ex_platform ''partition''
          (ex_request (ex_form ''true'' ''%PDF-3'' ''doc.pdf''))
          (ex_state (Some ex_client_ok) 5)) =
     Inr (Some (ex_page_request ''page 3'' ''doc-3.pdf''))
   \<and> map_of (req_headers (ex_page_request ''page 3'' ''doc-3.pdf'')) ''content-type'' =
       Some ''multipart/form-data; boundary=y''
   \<and> has_header (req_headers (ex_page_request ''page 3'' ''doc-3.pdf'')) ''content-type''"
  by (simp add: ex_beforeRequest_doc) (simp add: ex_page_request_def has_header_def)

text \<open>
  Outside the theorem above: a file named \<^verbatim>\<open>a.pdf.b.pdf\<close>. \<^verbatim>\<open>replace\<close> removes the
  first \<^verbatim>\<open>.pdf\<close>, so the pages are named after \<^verbatim>\<open>a.b.pdf\<close> and not after the stem
  \<^verbatim>\<open>a.pdf.b\<close>.
\<close>

lemma page_name_first_occurrence:
  "endsWith ''a.pdf.b.pdf'' ''.pdf''
   \<and> fst (beforeRequest ex_platform ''partition''
            (ex_request (ex_form ''true'' ''%PDF-3'' ''a.pdf.b.pdf''))
            (ex_state (Some ex_client_ok) 5)) =
       Inr (Some (ex_page_request ''page 3'' ''a.b.pdf-3.pdf''))
   \<and> ''a.b.pdf-3.pdf'' \<noteq> ''a.pdf.b'' @ ''-3.pdf''"
proof -
  have e: "endsWith ''a.pdf.b.pdf'' ''.pdf''"
    by (simp add: endsWith_def suffix_def)
  have "fst (beforeRequest ex_platform ''partition''
            (ex_request (ex_form ''true'' ''%PDF-3'' ''a.pdf.b.pdf''))
            (ex_state (Some ex_client_ok) 5)) =
       Inr (Some (ex_page_request ''page 3'' ''a.b.pdf-3.pdf''))"
    unfolding beforeRequest_split [OF ex_req_body ex_read_split_flag [of "''true''", simplified]
      ex_fd_get_files e ex_client_state]
    split_and_dispatch_pages [OF ex_getPdfPages_3 prepareRequestBody_Some [OF ex_req_body]]
    by (simp add: Let_def upt_rec page_request_def new_Request_def has_header_def
      fd_append_def fd_delete_def ex_form_def
      PARTITION_FORM_SPLIT_PDF_PAGE_KEY_def PARTITION_FORM_FILES_KEY_def
      prepareRequestHeaders_def headers_delete_def ex_request_def ex_platform_def
      string_of_nat.simps digit_char_def at_last_def ex_page_request_def)
  with e show ?thesis by simp
qed

section \<open>Running the background tasks\<close>

lemma run_task_cases:
  assumes "client st = Some send" and "partitionResponses st operationID = Some slots"
    and "i < length slots"
  shows "run_task operationID i req st =
           st\<lparr> partitionResponses := (partitionResponses st)
                   (operationID \<mapsto> (case task_result send req of None \<Rightarrow> slots
                                       | Some r \<Rightarrow> slots[i := Some r])),
               console := console st @ (if isl (send req) then [ErrorPageFailed (i + 1)] else []) \<rparr>"
  using assms
  by (auto simp add: run_task_def task_result_def log_def array_set_def map_upd_triv
      split: sum.splits)

lemma slots_after_Nil: "slots_after send tasks [] slots = slots"
  by (simp add: slots_after_def map_nth)

lemma slots_after_Cons_skip:
  "\<not> j < length tasks \<Longrightarrow> slots_after send tasks (j # order) slots = slots_after send tasks order slots"
  by (auto simp add: slots_after_def)

lemma slots_after_Cons_None:
  "task_result send (tasks ! j) = None \<Longrightarrow>
   slots_after send tasks (j # order) slots = slots_after send tasks order slots"
  by (auto simp add: slots_after_def)

lemma slots_after_Cons_Some:
  "j < length tasks \<Longrightarrow> task_result send (tasks ! j) = Some r \<Longrightarrow>
   slots_after send tasks (j # order) slots = slots_after send tasks order (slots[j := Some r])"
  by (auto simp add: slots_after_def) (metis nth_list_update_neq option.distinct(1))+

lemma run_tasks_effect:
  assumes "client st = Some send" and "partitionResponses st operationID = Some slots"
    and "length tasks \<le> length slots"
  shows "run_tasks operationID tasks order st =
           st\<lparr> partitionResponses := (partitionResponses st)
                   (operationID \<mapsto> slots_after send tasks order slots),
               console := console st @ task_log send tasks order \<rparr>"
  using assms
proof (induction order arbitrary: st slots)
  case Nil
  then show ?case
    by (simp add: run_tasks_def slots_after_Nil task_log_def map_upd_triv)
next
  case (Cons j order)
  show ?case
  proof (cases "j < length tasks")
    case False
    have "run_tasks operationID tasks (j # order) st = run_tasks operationID tasks order st"
      using False by (simp add: run_tasks_def)
    then show ?thesis
      using Cons.IH [OF Cons.prems] False
      by (simp add: slots_after_Cons_skip task_log_def)
  next
    case True
    define st1 where "st1 = run_task operationID j (tasks ! j) st"
    define slots1 where "slots1 = (case task_result send (tasks ! j) of None \<Rightarrow> slots
                                   | Some r \<Rightarrow> slots[j := Some r])"
    have j: "j < length slots" using True Cons.prems(3) by simp
    have st1: "st1 = st\<lparr> partitionResponses := (partitionResponses st)(operationID \<mapsto> slots1),
                 console := console st @ (if isl (send (tasks ! j)) then [ErrorPageFailed (j + 1)] else []) \<rparr>"
      unfolding st1_def slots1_def by (rule run_task_cases [OF Cons.prems(1,2) j])
    have c1: "client st1 = Some send" using Cons.prems(1) by (simp add: st1)
    have p1: "partitionResponses st1 operationID = Some slots1" by (simp add: st1)
    have l1: "length tasks \<le> length slots1"
      using Cons.prems(3) by (simp add: slots1_def split: option.splits)
    have s: "slots_after send tasks (j # order) slots = slots_after send tasks order slots1"
      using True
      by (cases "task_result send (tasks ! j)")
        (simp_all add: slots1_def slots_after_Cons_None slots_after_Cons_Some)
    have "run_tasks operationID tasks (j # order) st = run_tasks operationID tasks order st1"
      using True by (simp add: run_tasks_def st1_def)
    also have "\<dots> = st1\<lparr> partitionResponses := (partitionResponses st1)
                   (operationID \<mapsto> slots_after send tasks order slots1),
               console := console st1 @ task_log send tasks order \<rparr>"
      by (rule Cons.IH [OF c1 p1 l1])
    also have "\<dots> = st\<lparr> partitionResponses := (partitionResponses st)
                   (operationID \<mapsto> slots_after send tasks (j # order) slots),
               console := console st @ task_log send tasks (j # order) \<rparr>"
      using True by (intro hook_state.equality) (simp_all add: st1 s task_log_def fun_eq_iff)
    finally show ?thesis .
  qed
qed


lemma length_slots_after [simp]: "length (slots_after send tasks order slots) = length slots"
  by (simp add: slots_after_def)

lemma slots_after_valid:
  assumes "valid_schedule order (length tasks)"
  shows "slots_after send tasks order slots =
           map (\<lambda>i. if i < length tasks
                     then (case send (tasks ! i) of
                             Inl e \<Rightarrow> slots ! i
                           | Inr r \<Rightarrow> if res_status r = 200 then Some r else slots ! i)
                     else slots ! i) [0 ..< length slots]"
  using assms
  by (auto simp add: slots_after_def valid_schedule_def task_result_def split: sum.splits)

lemma task_log_valid:
  assumes "valid_schedule order (length tasks)"
  shows "task_log send tasks order =
           map (\<lambda>i. ErrorPageFailed (i + 1)) (filter (\<lambda>i. isl (send (tasks ! i))) order)"
proof -
  have "filter (\<lambda>i. i < length tasks \<and> isl (send (tasks ! i))) order =
        filter (\<lambda>i. isl (send (tasks ! i))) order"
    using assms by (intro filter_cong) (auto simp add: valid_schedule_def)
  then show ?thesis by (simp add: task_log_def)
qed

lemma awaitAllRequests_unsettled:
  assumes "client st = Some send"
    and "partitionRequests st operationID = Some h" and "\<not> jh_settled h"
    and "partitionResponses st operationID = Some slots"
    and "length (jh_tasks h) \<le> length slots"
    and "jh_rejected h = None"
  shows "awaitAllRequests order operationID st =
           (Inr (Some (collect (slots_after send (jh_tasks h) order slots))),
            st\<lparr> partitionResponses := (partitionResponses st)
                    (operationID \<mapsto> slots_after send (jh_tasks h) order slots),
                partitionRequests := (partitionRequests st)
                    (operationID \<mapsto> h\<lparr> jh_settled := True \<rparr>),
                console := console st @ task_log send (jh_tasks h) order \<rparr>)"
  using assms(2,3,6)
  by (simp add: awaitAllRequests_def Let_def run_tasks_effect [OF assms(1) assms(4) assms(5)])

lemma awaitAllRequests_rejected:
  assumes "partitionRequests st operationID = Some h" and "jh_rejected h = Some e"
  shows "awaitAllRequests order operationID st = (Inl e, st)"
  using assms by (simp add: awaitAllRequests_def)

text \<open>
  Claim C3, as the code has it. Let an operation hold a promise that the dispatcher
  accepted and that has not resolved yet, with a client set and a response array at
  least as long as the task list, and let the tasks complete in any valid order.
  After the join, slot \<open>i\<close> of a task holds the task's response when the transport
  returned status 200, and is what it was before otherwise (transport error or
  another status); this does not depend on the order. The console gains
  "Failed to send request for page i+1" for exactly the tasks whose transport call
  threw, in completion order, and nothing for a response with another status. The
  join completes whatever the tasks did.
\<close>

theorem background_slots_by_index:
  assumes "client st = Some send"
    and "partitionRequests st operationID = Some h" and "\<not> jh_settled h"
    and "partitionResponses st operationID = Some slots"
    and "length (jh_tasks h) \<le> length slots"
    and "jh_rejected h = None"
    and "valid_schedule order (length (jh_tasks h))"
  shows "partitionResponses (snd (awaitAllRequests order operationID st)) operationID =
           Some (map (\<lambda>i. if i < length (jh_tasks h)
                           then (case send (jh_tasks h ! i) of
                                   Inl e \<Rightarrow> slots ! i
                                 | Inr r \<Rightarrow> if res_status r = 200 then Some r else slots ! i)
                           else slots ! i) [0 ..< length slots])
         \<and> console (snd (awaitAllRequests order operationID st)) =
             console st @ map (\<lambda>i. ErrorPageFailed (i + 1))
                            (filter (\<lambda>i. isl (send (jh_tasks h ! i))) order)
         \<and> (\<exists>responses. fst (awaitAllRequests order operationID st) = Inr (Some responses))"
  by (simp add: awaitAllRequests_unsettled [OF assms(1-6)]
      slots_after_valid [OF assms(7)] task_log_valid [OF assms(7)])

theorem background_slots_by_index_witness:
  "partitionResponses
     (snd (awaitAllRequests [1, 0] ''partition'' (ex_op_state ex_client_mixed [None, None, None])))
     ''partition'' = Some [Some (ex_response 200 ''[1]''), None, None]
   \<and> console
       (snd (awaitAllRequests [1, 0] ''partition'' (ex_op_state ex_client_mixed [None, None, None])))
       = [ErrorPageFailed 2]
   \<and> (\<exists>responses.
         fst (awaitAllRequests [1, 0] ''partition'' (ex_op_state ex_client_mixed [None, None, None]))
           = Inr (Some responses))"
proof -
  have l: "length (jh_tasks ex_handle) \<le> length [None, None, None :: response option]"
    by (simp add: ex_handle_def)
  show ?thesis
    using background_slots_by_index [OF ex_op_state_simps(1) ex_op_state_simps(2)
        ex_handle_tasks(2) ex_op_state_simps(3) l ex_handle_tasks(3) valid_schedule_10]
    by (simp add: ex_handle_tasks ex_op_state_simps upt_rec ex_client_mixed_def ex_client_page
        ex_response_def)
qed

text \<open>
  Both background requests answered with status 404: the slots stay empty and the
  console stays empty.
\<close>

theorem non_200_not_logged_counterexample:
  "ex_client_404 (ex_page_request ''page 1'' ''doc-1.pdf'') = Inr (ex_response 404 ''[]'')
   \<and> ex_client_404 (ex_page_request ''page 2'' ''doc-2.pdf'') = Inr (ex_response 404 ''[]'')
   \<and> partitionResponses
       (snd (awaitAllRequests [0, 1] ''partition'' (ex_op_state ex_client_404 [None, None, None])))
       ''partition'' = Some [None, None, None]
   \<and> console
       (snd (awaitAllRequests [0, 1] ''partition'' (ex_op_state ex_client_404 [None, None, None])))
       = []"
  by (simp add: awaitAllRequests_def ex_op_state_simps ex_handle_tasks Let_def run_tasks_def
      run_task_def ex_client_404_def ex_client_page ex_response_def)

section \<open>The length of the response array\<close>

text \<open>
  Claim C8, as the code has it. After a split of a document with \<open>N\<close> pages the
  response array registered for the operation has \<open>N\<close> empty slots (one per derived
  request, the last of which no task writes), and it still has length \<open>N\<close> after the
  background tasks have run, in whatever order.
\<close>

theorem response_array_length:
  assumes "req_body request = Some fd"
    and "read_split_flag pl fd = Inr True"
    and "fd_get fd PARTITION_FORM_FILES_KEY = Some (FFile file name)"
    and "endsWith name ''.pdf''"
    and "client st = Some c"
    and "getPdfPages pl file = Inr pages"
    and "st' = snd (beforeRequest pl operationID request st)"
  shows "partitionResponses st' operationID = Some (replicate (length pages) None)
         \<and> map_option length
             (partitionResponses (snd (awaitAllRequests order operationID st')) operationID) =
             Some (length pages)"
proof -
  have b: "prepareRequestBody request =
     Inr (fd_append
            (fd_delete (fd_delete fd PARTITION_FORM_SPLIT_PDF_PAGE_KEY) PARTITION_FORM_FILES_KEY)
            PARTITION_FORM_SPLIT_PDF_PAGE_KEY (FString ''false''))"
    using assms(1) by (rule prepareRequestBody_Some)
  define requests where "requests = map2 (page_request pl request (prepareRequestHeaders request)
       (replace_first ''.pdf'' [] name)
       (fd_append
            (fd_delete (fd_delete fd PARTITION_FORM_SPLIT_PDF_PAGE_KEY) PARTITION_FORM_FILES_KEY)
            PARTITION_FORM_SPLIT_PDF_PAGE_KEY (FString ''false''))) [0 ..< length pages] pages"
  have n: "length requests = length pages" by (simp add: requests_def)
  have st': "st' = dispatch operationID requests st"
    by (simp add: assms(7) beforeRequest_split [OF assms(1-5)]
        split_and_dispatch_pages [OF assms(6) b] Let_def requests_def)
  have c: "client st' = Some c"
    using assms(5) by (simp add: st' dispatch_def Let_def log_def)
  have r: "partitionResponses st' operationID = Some (replicate (length pages) None)"
    by (simp add: st' dispatch_partitionResponses n)
  define h where "h = async_parallelLimit (butlast requests)
                        (min (parallelLimit st) MAX_NUMBER_OF_PARALLEL_REQUESTS)"
  have h: "partitionRequests st' operationID = Some h"
    by (simp add: st' dispatch_partitionRequests h_def)
  have "map_option length
          (partitionResponses (snd (awaitAllRequests order operationID st')) operationID) =
          Some (length pages)"
  proof (cases "jh_rejected h")
    case None
    have "\<not> jh_settled h" and "length (jh_tasks h) \<le> length (replicate (length pages) None)"
      by (simp_all add: h_def n)
    then show ?thesis
      using awaitAllRequests_unsettled [OF c h _ r _ None, of order] by simp
  next
    case (Some e)
    show ?thesis
      by (simp add: awaitAllRequests_rejected [OF h Some] r)
  qed
  with r show ?thesis by simp
qed

theorem response_array_length_witness:
  "partitionResponses
     (snd (beforeRequest ex_platform ''partition''
             (ex_request (ex_form ''true'' ''%PDF-3'' ''doc.pdf''))
             (ex_state (Some ex_client_mixed) 5))) ''partition'' = Some [None, None, None]
   \<and> map_option length
       (partitionResponses
          (snd (awaitAllRequests [1, 0] ''partition''
                  (snd (beforeRequest ex_platform ''partition''
                          (ex_request (ex_form ''true'' ''%PDF-3'' ''doc.pdf''))
                          (ex_state (Some ex_client_mixed) 5))))) ''partition'') = Some 3"
proof -
  have h2: "read_split_flag ex_platform (ex_form ''true'' ''%PDF-3'' ''doc.pdf'') = Inr True"
    by (simp add: ex_read_split_flag)
  show ?thesis
    using response_array_length [OF ex_req_body h2 ex_fd_get_files endsWith_doc_pdf
        ex_client_state ex_getPdfPages_3 refl, where operationID = "''partition''" and order = "[1, 0]"]
    by (simp add: numeral_3_eq_3)
qed

text \<open>
  Three pages: the array has three slots, not two.
\<close>

theorem response_array_length_counterexample:
  "map_sum id length (getPdfPages ex_platform (ex_blob ''%PDF-3'')) = Inr 3
   \<and> map_option length
       (partitionResponses
          (snd (beforeRequest ex_platform ''partition''
                  (ex_request (ex_form ''true'' ''%PDF-3'' ''doc.pdf''))
                  (ex_state (Some ex_client_mixed) 5))) ''partition'') = Some 3
   \<and> (3::nat) \<noteq> 3 - 1"
  by (simp add: ex_getPdfPages_3 ex_beforeRequest_doc ex_op_state_simps)

section \<open>Merging after the join\<close>

lemma awaitAllRequests_handle:
  assumes "partitionRequests st operationID = Some h" and "jh_rejected h = None"
  shows "fst (awaitAllRequests order operationID st) =
           Inr (Some (case partitionResponses (snd (awaitAllRequests order operationID st))
                             operationID of
                        None \<Rightarrow> [] | Some slots \<Rightarrow> collect slots))"
  using assms by (simp add: awaitAllRequests_def Let_def)

lemma parse_bodies_Inr:
  "map (json_parse pl \<circ> res_body) responses = map Inr parsed \<Longrightarrow>
   parse_bodies pl responses = Inr parsed"
proof (induction responses arbitrary: parsed)
  case Nil
  then show ?case by simp
next
  case (Cons r responses)
  then obtain j js where "parsed = j # js" by (cases parsed) auto
  with Cons show ?case by simp
qed

lemma parse_bodies_Inr_D:
  "parse_bodies pl responses = Inr parsed \<Longrightarrow>
   map (json_parse pl \<circ> res_body) responses = map Inr parsed"
  by (induction responses arbitrary: parsed) (auto split: sum.splits)

lemma parse_bodies_Inl:
  "r \<in> set responses \<Longrightarrow> isl (json_parse pl (res_body r)) \<Longrightarrow> isl (parse_bodies pl responses)"
  by (induction responses) (auto split: sum.splits)

lemma prepareResponseBody_Inr:
  "map (json_parse pl \<circ> res_body) responses = map Inr parsed \<Longrightarrow>
   prepareResponseBody pl responses = Inr (json_stringify pl (JArr (concat (map flat1 parsed))))"
  by (simp add: prepareResponseBody_def parse_bodies_Inr flat_def)

lemma prepareResponseBody_Inl:
  "\<exists>r\<in>set responses. isl (json_parse pl (res_body r)) \<Longrightarrow>
   isl (prepareResponseBody pl responses)"
  using parse_bodies_Inl [of _ responses pl]
  by (auto simp add: prepareResponseBody_def split: sum.splits)

lemma clearOperation_cleared:
  "partitionResponses (clearOperation operationID st) operationID = None"
  "partitionRequests (clearOperation operationID st) operationID = None"
  by (simp_all add: clearOperation_def)

lemma ex_await_mixed:
  "awaitAllRequests [1, 0] ''partition'' (ex_op_state ex_client_mixed [None, None, None]) =
     (Inr (Some [ex_response 200 ''[1]'']),
      (ex_op_state ex_client_mixed [None, None, None])
        \<lparr> partitionResponses := [''partition'' \<mapsto> [Some (ex_response 200 ''[1]''), None, None]],
          partitionRequests := [''partition'' \<mapsto> ex_handle\<lparr> jh_settled := True \<rparr>],
          console := [ErrorPageFailed 2] \<rparr>)"
  by (simp add: awaitAllRequests_def ex_op_state_simps ex_handle_tasks Let_def run_tasks_def
      run_task_def ex_client_mixed_def ex_client_page ex_response_def array_set_def log_def
      collect_def List.map_filter_simps)
    (simp add: ex_op_state_def)


lemma ex_await_pages:
  "awaitAllRequests [0, 1] ''partition'' (ex_op_state ex_client_pages [None, None, None]) =
     (Inr (Some [ex_response 200 ''[1]'', ex_response 200 ''[2]'']),
      (ex_op_state ex_client_pages [None, None, None])
        \<lparr> partitionResponses :=
            [''partition'' \<mapsto> [Some (ex_response 200 ''[1]''), Some (ex_response 200 ''[2]''), None]],
          partitionRequests := [''partition'' \<mapsto> ex_handle\<lparr> jh_settled := True \<rparr>] \<rparr>)"
  by (simp add: awaitAllRequests_def ex_op_state_simps ex_handle_tasks Let_def run_tasks_def
      run_task_def ex_client_pages_def ex_client_page ex_response_def array_set_def log_def
      collect_def List.map_filter_simps)
    (simp add: ex_op_state_def)


lemma new_Response_Inr:
  assumes "200 \<le> status" and "status \<le> 599" and "\<not> null_body_status status"
  shows "new_Response body hs status statusText =
           Inr \<lparr> res_status = status, res_statusText = statusText,
                 res_headers =
                   (if ''content-type'' \<in> fst ` set hs then hs
                    else hs @ [(''content-type'', ''text/plain;charset=UTF-8'')]),
                 res_body = body \<rparr>"
  using assms by (simp add: new_Response_def has_header_def)

lemma new_Response_Inr_D:
  assumes "new_Response body hs status statusText = Inr r"
  shows "r = \<lparr> res_status = status, res_statusText = statusText,
               res_headers =
                 (if ''content-type'' \<in> fst ` set hs then hs
                  else hs @ [(''content-type'', ''text/plain;charset=UTF-8'')]),
               res_body = body \<rparr>"
  using assms by (auto simp add: new_Response_def has_header_def split: if_splits)


text \<open>
  Claim C2, as the code has it. Let an Operation exist for the id, and let \<open>responses\<close>
  be the filled slots of its response array after the join, in slot order. Every
  response that \<^verbatim>\<open>afterSuccess\<close> returns is the merge of \<open>responses\<close> followed by the
  final response: the bodies of these parse as JSON, to \<open>parsed\<close> in that order, the
  status and status text are the final response's, the body is the JSON text of the
  array obtained by flattening \<open>parsed\<close> one level, and the headers are \<open>hs\<close>, the final
  response's without \<^verbatim>\<open>content-length\<close>, followed by
  \<^verbatim>\<open>content-type: text/plain;charset=UTF-8\<close> when \<open>hs\<close> has no \<^verbatim>\<open>content-type\<close>.
  Conversely that response is returned whenever the promise was not rejected, the
  bodies parse, and the final status is one that a response with a body may have
  (200 to 599, not a null-body status).
\<close>

theorem afterSuccess_merges:
  assumes "partitionRequests st operationID = Some h"
    and "responses =
           (case partitionResponses (snd (awaitAllRequests order operationID st)) operationID of
              None \<Rightarrow> [] | Some slots \<Rightarrow> collect slots)"
    and "hs = filter (\<lambda>h. fst h \<noteq> ''content-length'') (res_headers response)"
    and "merged =
           (\<lambda>parsed.
              \<lparr> res_status = res_status response,
                res_statusText = res_statusText response,
                res_headers =
                  (if ''content-type'' \<in> fst ` set hs then hs
                   else hs @ [(''content-type'', ''text/plain;charset=UTF-8'')]),
                res_body = json_stringify pl (JArr (concat (map flat1 parsed))) \<rparr>)"
  shows "(\<forall>r. fst (afterSuccess pl order operationID response st) = Inr r \<longrightarrow>
            (\<exists>parsed.
               map (json_parse pl \<circ> res_body) (responses @ [response]) = map Inr parsed
               \<and> r = merged parsed))
         \<and> (jh_rejected h = None \<and> 200 \<le> res_status response \<and> res_status response \<le> 599
              \<and> \<not> null_body_status (res_status response) \<longrightarrow>
              (\<forall>parsed.
                 map (json_parse pl \<circ> res_body) (responses @ [response]) = map Inr parsed \<longrightarrow>
                 fst (afterSuccess pl order operationID response st) = Inr (merged parsed)))"
proof (cases "jh_rejected h")
  case (Some e)
  have "afterSuccess pl order operationID response st = (Inl e, st)"
    by (simp add: afterSuccess_def awaitAllRequests_rejected [OF assms(1) Some])
  with Some show ?thesis by simp
next
  case None
  obtain st1 where a: "awaitAllRequests order operationID st = (Inr (Some responses), st1)"
    using awaitAllRequests_handle [OF assms(1) None, of order] assms(2)
    by (cases "awaitAllRequests order operationID st") simp
  have s: "fst (afterSuccess pl order operationID response st) =
     (case prepareResponseBody pl (responses @ [response]) of
        Inl e \<Rightarrow> Inl e
      | Inr body \<Rightarrow> new_Response body hs (res_status response) (res_statusText response))"
    by (simp add: afterSuccess_def a prepareResponseHeaders_def headers_delete_def assms(3)
        split: sum.splits)
  show ?thesis
  proof (intro conjI allI impI)
    fix r
    assume r: "fst (afterSuccess pl order operationID response st) = Inr r"
    show "\<exists>parsed.
               map (json_parse pl \<circ> res_body) (responses @ [response]) = map Inr parsed
               \<and> r = merged parsed"
    proof (cases "parse_bodies pl (responses @ [response])")
      case (Inl e)
      then show ?thesis
        using r by (simp add: s prepareResponseBody_def)
    next
      case (Inr parsed)
      have "map (json_parse pl \<circ> res_body) (responses @ [response]) = map Inr parsed"
        using Inr by (rule parse_bodies_Inr_D)
      moreover have "new_Response (json_stringify pl (JArr (concat (map flat1 parsed)))) hs
                       (res_status response) (res_statusText response) = Inr r"
        using r Inr by (simp add: s prepareResponseBody_def flat_def)
      then have "r = merged parsed"
        unfolding assms(4) by (rule new_Response_Inr_D)
      ultimately show ?thesis by blast
    qed
  next
    fix parsed
    assume c: "jh_rejected h = None \<and> 200 \<le> res_status response \<and> res_status response \<le> 599
              \<and> \<not> null_body_status (res_status response)"
      and p: "map (json_parse pl \<circ> res_body) (responses @ [response]) = map Inr parsed"
    have "new_Response (json_stringify pl (JArr (concat (map flat1 parsed)))) hs
            (res_status response) (res_statusText response) = Inr (merged parsed)"
      unfolding assms(4) using c by (intro new_Response_Inr) simp_all
    then show "fst (afterSuccess pl order operationID response st) = Inr (merged parsed)"
      using prepareResponseBody_Inr [OF p] by (simp add: s)
  qed
qed

theorem afterSuccess_merges_witness:
  "fst (afterSuccess ex_platform [1, 0] ''partition'' (ex_response 200 ''[3]'')
          (ex_op_state ex_client_mixed [None, None, None])) =
     Inr \<lparr> res_status = 200, res_statusText = ''OK'',
           res_headers = [(''content-type'', ''application/json'')],
           res_body = ''[1,3]'' \<rparr>"
proof -
  have p: "map (json_parse ex_platform \<circ> res_body)
             ((case partitionResponses
                     (snd (awaitAllRequests [1, 0] ''partition''
                             (ex_op_state ex_client_mixed [None, None, None]))) ''partition'' of
                 None \<Rightarrow> [] | Some slots \<Rightarrow> collect slots) @ [ex_response 200 ''[3]'']) =
           map Inr [JArr [JNum 1], JArr [JNum 3]]"
    unfolding ex_await_mixed
    by (simp add: collect_def List.map_filter_simps ex_platform_def ex_parse_def
        ex_response_def)
  have c: "jh_rejected ex_handle = None \<and> 200 \<le> res_status (ex_response 200 ''[3]'')
           \<and> res_status (ex_response 200 ''[3]'') \<le> 599
           \<and> \<not> null_body_status (res_status (ex_response 200 ''[3]''))"
    by (simp add: ex_handle_tasks ex_response_def null_body_status_def)
  have "fst (afterSuccess ex_platform [1, 0] ''partition'' (ex_response 200 ''[3]'')
          (ex_op_state ex_client_mixed [None, None, None])) =
     Inr \<lparr> res_status = res_status (ex_response 200 ''[3]''),
           res_statusText = res_statusText (ex_response 200 ''[3]''),
           res_headers =
             (if ''content-type'' \<in> fst ` set (filter (\<lambda>h. fst h \<noteq> ''content-length'')
                                                  (res_headers (ex_response 200 ''[3]'')))
              then filter (\<lambda>h. fst h \<noteq> ''content-length'') (res_headers (ex_response 200 ''[3]''))
              else filter (\<lambda>h. fst h \<noteq> ''content-length'') (res_headers (ex_response 200 ''[3]''))
                   @ [(''content-type'', ''text/plain;charset=UTF-8'')]),
           res_body = json_stringify ex_platform
                        (JArr (concat (map flat1 [JArr [JNum 1], JArr [JNum 3]]))) \<rparr>"
    using afterSuccess_merges
        [OF ex_op_state_simps(2) [of ex_client_mixed "[None, None, None]"] refl refl refl,
         where pl = ex_platform and order = "[1, 0]" and response = "ex_response 200 ''[3]''"]
      p c
    by blast
  then show ?thesis
    by (simp add: ex_response_def ex_platform_def string_of_nat.simps digit_char_def)
qed

text \<open>
  A final response with no \<^verbatim>\<open>content-type\<close> header: its headers without
  \<^verbatim>\<open>content-length\<close> are none, but the returned response has a \<^verbatim>\<open>content-type\<close>.
\<close>

theorem afterSuccess_content_type_counterexample:
  "fst (afterSuccess ex_platform [1, 0] ''partition'' (ex_response_bare 200 ''[3]'')
          (ex_op_state ex_client_mixed [None, None, None])) =
     Inr \<lparr> res_status = 200, res_statusText = ''OK'',
           res_headers = [(''content-type'', ''text/plain;charset=UTF-8'')],
           res_body = ''[1,3]'' \<rparr>
   \<and> prepareResponseHeaders (ex_response_bare 200 ''[3]'') = []"
  unfolding afterSuccess_def ex_await_mixed
  by (simp add: prepareResponseBody_def prepareResponseHeaders_def headers_delete_def
      new_Response_def has_header_def null_body_status_def flat_def
      ex_platform_def ex_parse_def ex_response_def ex_response_bare_def
      string_of_nat.simps digit_char_def)




section \<open>Clearing the operation\<close>

lemma clearOperation_idempotent:
  "clearOperation operationID (clearOperation operationID st) = clearOperation operationID st"
  by (simp add: clearOperation_def)

lemma afterSuccess_clears_on_return:
  assumes "partitionRequests st operationID = Some h"
    and "afterSuccess pl order operationID response st = (Inr r, st')"
  shows "partitionResponses st' operationID = None \<and> partitionRequests st' operationID = None"
proof (cases "jh_rejected h")
  case (Some e)
  then show ?thesis
    using assms(2) by (simp add: afterSuccess_def awaitAllRequests_rejected [OF assms(1) Some])
next
  case None
  obtain responses st1 where
    a: "awaitAllRequests order operationID st = (Inr (Some responses), st1)"
    using awaitAllRequests_handle [OF assms(1) None, of order]
    by (cases "awaitAllRequests order operationID st") simp
  show ?thesis
    using assms(2)
    by (auto simp add: afterSuccess_def a clearOperation_cleared split: sum.splits)
qed

lemma afterError_clears_on_return:
  assumes "afterError pl order operationID response err st = (Inr r, st')"
  shows "partitionResponses st' operationID = None \<and> partitionRequests st' operationID = None"
  using assms
  by (auto simp add: afterError_def clearOperation_cleared
      split: prod.splits option.splits list.splits sum.splits)

text \<open>
  Claim C7 asks that no state remains for an operation id once \<^verbatim>\<open>afterSuccess\<close> or
  \<^verbatim>\<open>afterError\<close> has finished, and that \<^verbatim>\<open>afterSuccess\<close> clears unconditionally. The
  code clears after the merge, and the merge can throw. Here the three-page split
  has two background responses in its slots and the final response has status 200
  and the body \<^verbatim>\<open>a,b\<close>, which is not JSON: \<^verbatim>\<open>afterSuccess\<close> ends with the parse
  error, and the response array and the (resolved) promise are still stored under
  the id.
\<close>

theorem cleanup_skipped_when_merge_throws:
  "fst (afterSuccess ex_platform [0, 1] ''partition'' (ex_response 200 ''a,b'')
          (ex_op_state ex_client_pages [None, None, None])) = Inl SyntaxError
   \<and> partitionResponses
       (snd (afterSuccess ex_platform [0, 1] ''partition'' (ex_response 200 ''a,b'')
               (ex_op_state ex_client_pages [None, None, None]))) ''partition'' =
       Some [Some (ex_response 200 ''[1]''), Some (ex_response 200 ''[2]''), None]
   \<and> partitionRequests
       (snd (afterSuccess ex_platform [0, 1] ''partition'' (ex_response 200 ''a,b'')
               (ex_op_state ex_client_pages [None, None, None]))) ''partition'' =
       Some (ex_handle\<lparr> jh_settled := True \<rparr>)"
  unfolding afterSuccess_def ex_await_pages
  by (simp add: prepareResponseBody_def ex_platform_def ex_parse_def ex_response_def
      ex_op_state_simps)

end
